theory Spec2Isabelle
  imports Main "HOL-Library.Code_Target_Nat"
begin

section \<open>JavaScript strings and numbers\<close>

text \<open>
  A JavaScript string is the list of its code units; the model covers the code units
  below 256, one \<^typ>\<open>char\<close> each, so that \<open>length\<close> is the string's
  \<^verbatim>\<open>.length\<close>.  The built-ins the two pages call on strings are written out for
  that range: \<^verbatim>\<open>trim\<close> removes WhiteSpace and LineTerminator code units at both
  ends, \<^verbatim>\<open>toLowerCase\<close> maps \<^verbatim>\<open>A-Z\<close> and the upper-case letters of
  Latin-1 to their lower-case forms.
\<close>

definition isWhiteSpace :: "char \<Rightarrow> bool" where
  "isWhiteSpace c \<longleftrightarrow>
     c = CHR 0x09 \<or> c = CHR 0x0A \<or> c = CHR 0x0B \<or> c = CHR 0x0C \<or> c = CHR 0x0D \<or>
     c = CHR 0x20 \<or> c = CHR 0xA0"

definition trim :: "string \<Rightarrow> string" where
  "trim s = rev (dropWhile isWhiteSpace (rev (dropWhile isWhiteSpace s)))"

definition toLowerCase_unit :: "char \<Rightarrow> char" where
  "toLowerCase_unit c =
     (let n = (of_char c :: nat)
      in if (65 \<le> n \<and> n \<le> 90) \<or> (192 \<le> n \<and> n \<le> 222 \<and> n \<noteq> 215)
         then char_of (n + 32) else c)"

definition toLowerCase :: "string \<Rightarrow> string" where
  "toLowerCase s = map toLowerCase_unit s"

text \<open>
  \<^verbatim>\<open>index.toString()\<close> of an array index: its decimal digits, most significant first.
\<close>

fun toString :: "nat \<Rightarrow> string" where
  "toString n =
     (if n < 10 then [char_of (48 + n)]
      else toString (n div 10) @ [char_of (48 + n mod 10)])"

declare toString.simps [simp del]

text \<open>The value of a code unit as a digit of the radix \<open>R\<close> (\<open>R \<le> 16\<close> here).\<close>

definition digit_of :: "nat \<Rightarrow> char \<Rightarrow> nat option" where
  "digit_of R c =
     (let n = (of_char c :: nat);
          v = (if 48 \<le> n \<and> n \<le> 57 then Some (n - 48)
               else if 97 \<le> n \<and> n \<le> 102 then Some (n - 87)
               else if 65 \<le> n \<and> n \<le> 70 then Some (n - 55)
               else None)
      in case v of None \<Rightarrow> None | Some d \<Rightarrow> if d < R then Some d else None)"

definition digits_value :: "nat \<Rightarrow> string \<Rightarrow> nat" where
  "digits_value R Z = foldl (\<lambda>a c. a * R + the (digit_of R c)) 0 Z"

text \<open>
  \<^verbatim>\<open>parseInt(string)\<close> with no radix: leading white space is skipped, a sign is
  read, a prefix \<^verbatim>\<open>0x\<close> or \<^verbatim>\<open>0X\<close> selects radix 16, and the longest run of digits
  is the value; what follows the digits is ignored.  No digit at all gives NaN, which is
  \<open>None\<close> here.  The result is an unbounded integer: \<^verbatim>\<open>-0\<close> is \<open>0\<close> (as an array
  index both are the property \<^verbatim>\<open>"0"\<close>), and the rounding of values beyond \<open>2^53\<close>
  is left out, since such a value is beyond the length of every array either way.
\<close>

definition parseInt :: "string \<Rightarrow> int option" where
  "parseInt str =
     (let s = dropWhile isWhiteSpace str;
          neg = (s \<noteq> [] \<and> hd s = CHR ''-'');
          s1 = (if s \<noteq> [] \<and> (hd s = CHR ''+'' \<or> hd s = CHR ''-'') then tl s else s);
          hex = (take 2 s1 = ''0x'' \<or> take 2 s1 = ''0X'');
          R = (if hex then 16 else 10);
          s2 = (if hex then drop 2 s1 else s1);
          Z = takeWhile (\<lambda>c. digit_of R c \<noteq> None) s2
      in if Z = [] then None
         else Some ((if neg then - 1 else 1) * int (digits_value R Z)))"

text \<open>
  \<^verbatim>\<open>Number(sel)\<close> followed by \<^verbatim>\<open>Number.isInteger\<close>: \<open>Some n\<close> when the string
  converts to the integer \<open>n\<close>, \<open>None\<close> when it converts to NaN.  The string is
  trimmed; the empty string converts to 0; an optional sign and decimal digits convert
  to their value.  Literals with a fraction, an exponent or a radix prefix, which
  \<^verbatim>\<open>Number\<close> reads through floating point, are not covered: the slot this is applied
  to is written by \<open>viewCharacter\<close> only, as \<^verbatim>\<open>index.toString()\<close>.
\<close>

definition Number_integer :: "string \<Rightarrow> int option" where
  "Number_integer str =
     (let s = trim str;
          neg = (s \<noteq> [] \<and> hd s = CHR ''-'');
          Z = (if s \<noteq> [] \<and> (hd s = CHR ''+'' \<or> hd s = CHR ''-'') then tl s else s)
      in if s = [] then Some 0
         else if Z \<noteq> [] \<and> list_all (\<lambda>c. digit_of 10 c \<noteq> None) Z
         then Some ((if neg then - 1 else 1) * int (digits_value 10 Z))
         else None)"

text \<open>
  \<^verbatim>\<open>array[n]\<close> for the result of \<open>parseInt\<close>: the element when \<open>n\<close> is a number
  within the bounds, \<^verbatim>\<open>undefined\<close> (here \<open>None\<close>) for NaN, a negative number or a
  number beyond the last element.
\<close>

definition array_get :: "'a list \<Rightarrow> int option \<Rightarrow> 'a option" where
  "array_get xs n =
     (case n of
        None \<Rightarrow> None
      | Some i \<Rightarrow> if 0 \<le> i \<and> i < int (length xs) then Some (xs ! nat i) else None)"

text \<open>\<^verbatim>\<open>array.splice(i, 1)\<close> for \<open>i \<ge> 0\<close>: beyond the end nothing is removed.\<close>

definition splice1 :: "nat \<Rightarrow> 'a list \<Rightarrow> 'a list" where
  "splice1 i xs = take i xs @ drop (Suc i) xs"


section \<open>Data model\<close>

text \<open>
  An Item of a bag and a Character, with the fields the pages write.  \<^verbatim>\<open>id\<close> and
  \<^verbatim>\<open>type\<close> are named \<open>iid\<close>, \<open>itype\<close>, \<open>cid\<close>, \<open>ctype\<close>.  A field read from a
  form that is \<^verbatim>\<open>null\<close> is the empty string here: the pages test such a field for
  falsiness only, and a record with a falsy \<open>type\<close> or \<open>imageUrl\<close> is never stored.
  The bag of a stored Character may be missing, which the detail page checks for.
\<close>

record item =
  iid :: string
  itype :: string
  iname :: string
  idescription :: string
  addedAt :: string

record character =
  cid :: int
  ctype :: string
  name :: string
  description :: string
  imageUrl :: string
  bag :: "item list option"
  createdAt :: string

text \<open>The fields of a submitted form: \<^verbatim>\<open>formData.get\<close> gives a string or \<^verbatim>\<open>null\<close>.\<close>

record characterForm =
  f_type :: "string option"
  f_name :: "string option"
  f_description :: "string option"
  f_customImageUrl :: "string option"
  f_imageUrl :: "string option"

record itemForm =
  g_type :: "string option"
  g_name :: "string option"
  g_description :: "string option"

datatype js_error = TypeError | QuotaExceededError

text \<open>The messages of \<open>showMessage\<close>, and the entries of \<^verbatim>\<open>console.error\<close>.\<close>

datatype message =
    SelectCharacterType
  | CharacterNameTooShort
  | DescriptionTooShort nat
  | SelectImage
  | CharacterNameExists
  | ErrorSaving
  | ErrorSavingChanges
  | ErrorCreating
  | CharacterCreated string
  | CharacterDeleted
  | AllDeleted
  | ErrorDeleting
  | ErrorOpeningDetails
  | SelectItemType
  | ItemNameTooShort
  | ItemNameExists
  | ItemAdded string string
  | ErrorAddingItem
  | ItemRemoved string
  | ErrorRemovingItem

datatype log = ErrorLoadingCharacters | ErrorSavingCharacters | ErrorNavigating
  | ErrorAddingItemLog | ErrorRemovingItemLog | ErrorInitializingDetail

text \<open>
  The values of JSON.  The members of an object are in the order of the text, each key
  once.  Numbers are integers here: the pages test a number of the store for being zero
  only.
\<close>

datatype jsvalue =
    JNull
  | JBool bool
  | JNum int
  | JStr string
  | JArr "jsvalue list"
  | JObj "(string \<times> jsvalue) list"

text \<open>
  What \<^verbatim>\<open>JSON.parse\<close> gives for a text of the store: an array of Characters (objects
  with the fields of the data model, as the pages write them), held as the list of these
  records, or a value that is no such array, held as it is.
\<close>

datatype parsed = Characters "character list" | Foreign jsvalue

text \<open>
  \<^verbatim>\<open>JSON.parse\<close> and \<^verbatim>\<open>JSON.stringify\<close> belong to the platform and are parameters
  of the pages, whose properties hold for every such pair; the pair of the platform
  itself is \<open>JSON\<close>, below.  \<open>JSON_parse\<close> gives \<open>None\<close> when the text is not JSON (a
  SyntaxError is thrown).  \<open>JSON_stringify\<close> is applied to arrays of Characters only.
\<close>

record json =
  JSON_parse :: "string \<Rightarrow> parsed option"
  JSON_stringify :: "character list \<Rightarrow> string"

text \<open>
  What a page holds: the slot \<^verbatim>\<open>dragonRuneCharacters\<close> of \<open>localStorage\<close>, the slot
  \<^verbatim>\<open>selectedCharacterIndex\<close> of \<open>sessionStorage\<close>, the length beyond which
  \<^verbatim>\<open>setItem\<close> throws QuotaExceededError, the array \<open>this.characters\<close>, the message
  on display, the console and the address assigned to \<^verbatim>\<open>window.location.href\<close>.
\<close>

record page =
  localStorage :: "string option"
  sessionStorage :: "string option"
  quota :: nat
  characters :: "character list"
  message :: "message option"
  console :: "log list"
  href :: "string option"

definition localStorage_setItem :: "string \<Rightarrow> 'a page_scheme \<Rightarrow> js_error + 'a page_scheme" where
  "localStorage_setItem v p =
     (if quota p < length v then Inl QuotaExceededError else Inr (p\<lparr>localStorage := Some v\<rparr>))"

definition sessionStorage_setItem :: "string \<Rightarrow> 'a page_scheme \<Rightarrow> js_error + 'a page_scheme" where
  "sessionStorage_setItem v p =
     (if quota p < length v then Inl QuotaExceededError else Inr (p\<lparr>sessionStorage := Some v\<rparr>))"

definition showMessage :: "message \<Rightarrow> 'a page_scheme \<Rightarrow> 'a page_scheme" where
  "showMessage m p = p\<lparr>message := Some m\<rparr>"

definition console_error :: "log \<Rightarrow> 'a page_scheme \<Rightarrow> 'a page_scheme" where
  "console_error l p = p\<lparr>console := console p @ [l]\<rparr>"

section \<open>The gallery page\<close>

text \<open>
  \<open>loadCharacters\<close> of the gallery returns a value: the empty array when the slot is
  \<^verbatim>\<open>null\<close> or the empty string (both falsy), what \<^verbatim>\<open>JSON.parse\<close> gives otherwise,
  whatever it is, and the empty array again, after \<^verbatim>\<open>console.error\<close>, when the parse
  throws.
\<close>

definition loadCharacters :: "json \<Rightarrow> 'a page_scheme \<Rightarrow> parsed \<times> 'a page_scheme" where
  "loadCharacters J p =
     (case localStorage p of
        None \<Rightarrow> (Characters [], p)
      | Some stored \<Rightarrow>
          if stored = [] then (Characters [], p)
          else (case JSON_parse J stored of
                  Some v \<Rightarrow> (v, p)
                | None \<Rightarrow> (Characters [], console_error ErrorLoadingCharacters p)))"

definition saveCharacters :: "json \<Rightarrow> 'a page_scheme \<Rightarrow> 'a page_scheme" where
  "saveCharacters J p =
     (case localStorage_setItem (JSON_stringify J (characters p)) p of
        Inr p' \<Rightarrow> p'
      | Inl e \<Rightarrow> showMessage ErrorSaving (console_error ErrorSavingCharacters p))"

text \<open>
  The constructor: \<^verbatim>\<open>this.characters = this.loadCharacters()\<close>, then rendering.  The
  gallery is modelled for arrays of Characters: \<open>Inl v\<close> says that \<open>this.characters\<close> is
  the value \<open>v\<close>, which is no such array, and nothing more about that page.
\<close>

definition CharacterManager :: "json \<Rightarrow> 'a page_scheme \<Rightarrow> jsvalue + 'a page_scheme" where
  "CharacterManager J p =
     (case loadCharacters J p of
        (Characters cs, p') \<Rightarrow> Inr (p'\<lparr>characters := cs\<rparr>)
      | (Foreign v, p') \<Rightarrow> Inl v)"

text \<open>
  \<open>validateCharacterData\<close>, with the minimum length of a description as a parameter: 10
  in the first variant of the gallery, 5 in the second.  The checks run in the order of
  the source; the first that fails shows its message and returns \<^verbatim>\<open>false\<close>.
\<close>

definition validateCharacterData :: "nat \<Rightarrow> 'a page_scheme \<Rightarrow> character \<Rightarrow> bool \<times> 'a page_scheme" where
  "validateCharacterData minDescription p data =
     (if ctype data = [] then (False, showMessage SelectCharacterType p)
      else if name data = [] \<or> length (name data) < 2
        then (False, showMessage CharacterNameTooShort p)
      else if description data = [] \<or> length (description data) < minDescription
        then (False, showMessage (DescriptionTooShort minDescription) p)
      else if imageUrl data = [] then (False, showMessage SelectImage p)
      else if list_ex (\<lambda>char. toLowerCase (name char) = toLowerCase (name data)) (characters p)
        then (False, showMessage CharacterNameExists p)
      else (True, p))"

text \<open>
  \<open>addCharacter\<close>: push, save, render, reset the form, show the success message.
  \<open>saveCharacters\<close> catches its own exception and rendering reads the array only, so
  nothing reaches the \<^verbatim>\<open>catch\<close> of \<open>addCharacter\<close>.
\<close>

definition addCharacter :: "json \<Rightarrow> 'a page_scheme \<Rightarrow> character \<Rightarrow> 'a page_scheme" where
  "addCharacter J p characterData =
     showMessage (CharacterCreated (name characterData))
       (saveCharacters J (p\<lparr>characters := characters p @ [characterData]\<rparr>))"

text \<open>
  The record \<open>handleFormSubmit\<close> builds from the form, the clock (\<^verbatim>\<open>Date.now()\<close>) and
  the date (\<^verbatim>\<open>toISOString\<close>).  \<^verbatim>\<open>.trim()\<close> on a field that is \<^verbatim>\<open>null\<close> throws.
  First variant: a custom address, when one is given, replaces the selected image.
\<close>

definition characterData :: "characterForm \<Rightarrow> int \<Rightarrow> string \<Rightarrow> js_error + character" where
  "characterData form now date =
     (case (f_name form, f_description form, f_customImageUrl form) of
        (Some n, Some d, Some u) \<Rightarrow>
          Inr \<lparr>cid = now, ctype = (case f_type form of None \<Rightarrow> [] | Some t \<Rightarrow> t),
               name = trim n, description = trim d,
               imageUrl = (if trim u \<noteq> [] then trim u
                           else (case f_imageUrl form of None \<Rightarrow> [] | Some i \<Rightarrow> i)),
               bag = Some [], createdAt = date\<rparr>
      | _ \<Rightarrow> Inl TypeError)"

text \<open>Second variant: local images only, under \<^verbatim>\<open>assets/images/\<close>.\<close>

definition characterData2 :: "characterForm \<Rightarrow> int \<Rightarrow> string \<Rightarrow> js_error + character" where
  "characterData2 form now date =
     (let imageFile = trim (case f_imageUrl form of None \<Rightarrow> [] | Some i \<Rightarrow> i)
      in case (f_name form, f_description form) of
           (Some n, Some d) \<Rightarrow>
             Inr \<lparr>cid = now, ctype = (case f_type form of None \<Rightarrow> [] | Some t \<Rightarrow> t),
                  name = trim n, description = trim d,
                  imageUrl = (if imageFile \<noteq> [] then ''assets/images/'' @ imageFile else []),
                  bag = Some [], createdAt = date\<rparr>
         | _ \<Rightarrow> Inl TypeError)"

text \<open>
  \<open>handleFormSubmit\<close>: build the record, validate it, add it.  \<open>Inl\<close> is an exception
  that leaves the handler, with the page as it was.
\<close>

definition handleFormSubmit ::
  "json \<Rightarrow> 'a page_scheme \<Rightarrow> characterForm \<Rightarrow> int \<Rightarrow> string \<Rightarrow> js_error + 'a page_scheme" where
  "handleFormSubmit J p form now date =
     (case characterData form now date of
        Inl e \<Rightarrow> Inl e
      | Inr data \<Rightarrow>
          (case validateCharacterData 10 p data of
             (ok, p') \<Rightarrow> if \<not> ok then Inr p' else Inr (addCharacter J p' data)))"

definition handleFormSubmit2 ::
  "json \<Rightarrow> 'a page_scheme \<Rightarrow> characterForm \<Rightarrow> int \<Rightarrow> string \<Rightarrow> js_error + 'a page_scheme" where
  "handleFormSubmit2 J p form now date =
     (case characterData2 form now date of
        Inl e \<Rightarrow> Inl e
      | Inr data \<Rightarrow>
          (case validateCharacterData 5 p data of
             (ok, p') \<Rightarrow> if \<not> ok then Inr p' else Inr (addCharacter J p' data)))"

text \<open>
  \<open>viewCharacter\<close>: the index is written to the session slot as a decimal string and the
  page moves to the detail page; an exception of \<^verbatim>\<open>setItem\<close> is caught and reported.
\<close>

definition viewCharacter :: "'a page_scheme \<Rightarrow> nat \<Rightarrow> 'a page_scheme" where
  "viewCharacter p index =
     (case sessionStorage_setItem (toString index) p of
        Inr p' \<Rightarrow> p'\<lparr>href := Some ''detail.html''\<rparr>
      | Inl e \<Rightarrow> showMessage ErrorOpeningDetails (console_error ErrorNavigating p))"

text \<open>\<open>clearAllCharacters\<close>, with the answer to the confirmation dialog as an argument.\<close>

definition clearAllCharacters :: "json \<Rightarrow> 'a page_scheme \<Rightarrow> bool \<Rightarrow> 'a page_scheme" where
  "clearAllCharacters J p confirmed =
     (if confirmed then showMessage AllDeleted (saveCharacters J (p\<lparr>characters := []\<rparr>)) else p)"

text \<open>
  The handler of the delete button of a card (second variant only), for the card at
  \<open>index\<close>: after the confirmation the element is spliced out and the array saved; then
  the session slot is removed when it holds no integer or a number not below the new
  length.
\<close>

definition deleteCharacter :: "json \<Rightarrow> 'a page_scheme \<Rightarrow> nat \<Rightarrow> bool \<Rightarrow> 'a page_scheme" where
  "deleteCharacter J p index confirmed =
     (if confirmed then
        (let p1 = saveCharacters J (p\<lparr>characters := splice1 index (characters p)\<rparr>);
             p2 = (case sessionStorage p1 of
                     None \<Rightarrow> p1
                   | Some sel \<Rightarrow>
                       (case Number_integer sel of
                          None \<Rightarrow> p1\<lparr>sessionStorage := None\<rparr>
                        | Some n \<Rightarrow>
                            if int (length (characters p1)) \<le> n
                            then p1\<lparr>sessionStorage := None\<rparr> else p1))
         in showMessage CharacterDeleted p2)
      else p)"


section \<open>The detail page\<close>

text \<open>
  What \<open>showError\<close> or the rendering puts on the page, and the state of the detail page:
  the fields of \<open>CharacterDetailManager\<close>, the timer of the redirect (address and delay
  in milliseconds), and whether \<open>initializeEventListeners\<close> has attached the handler of the
  item form.  \<open>this.character\<close> is the element of \<open>this.characters\<close> it was
  read from; the page writes it back to the array after every change.
\<close>

datatype view = Loading | Ready | NoCharacterSelected | CharacterNotFound | ErrorLoadingCharacter

record detail = page +
  characterIndex :: "string option"
  character :: "character option"
  view :: view
  redirect :: "(string \<times> nat) option"
  listening :: bool

definition showError :: "view \<Rightarrow> detail \<Rightarrow> detail" where
  "showError v d = d\<lparr>view := v\<rparr>"

text \<open>
  \<open>loadCharacters\<close> of the detail page assigns \<open>this.characters\<close>.  \<open>Inl v\<close>: the parse
  gave the value \<open>v\<close>, no array of Characters, and \<open>this.characters\<close> is \<open>v\<close>; nothing
  else has changed.
\<close>

definition detail_loadCharacters :: "json \<Rightarrow> detail \<Rightarrow> jsvalue + detail" where
  "detail_loadCharacters J d =
     (case localStorage d of
        None \<Rightarrow> Inr (d\<lparr>characters := []\<rparr>)
      | Some stored \<Rightarrow>
          if stored = [] then Inr (d\<lparr>characters := []\<rparr>)
          else (case JSON_parse J stored of
                  Some (Characters cs) \<Rightarrow> Inr (d\<lparr>characters := cs\<rparr>)
                | Some (Foreign v) \<Rightarrow> Inl v
                | None \<Rightarrow> Inr ((console_error ErrorLoadingCharacters d)\<lparr>characters := []\<rparr>)))"

definition detail_saveCharacters :: "json \<Rightarrow> detail \<Rightarrow> detail" where
  "detail_saveCharacters J d =
     (case localStorage_setItem (JSON_stringify J (characters d)) d of
        Inr d' \<Rightarrow> d'
      | Inl e \<Rightarrow> showMessage ErrorSavingChanges (console_error ErrorSavingCharacters d))"

text \<open>
  What \<open>initializeDetail\<close> does with a value of the store that is no array of Characters.
  Whether a value is truthy; the property of a number (the result of \<open>parseInt\<close>) as a
  key; \<^verbatim>\<open>value[n]\<close>, which throws on \<^verbatim>\<open>null\<close>; and whether a value converts to a string
  (an object with a member \<^verbatim>\<open>toString\<close>, which is no function, does not).  The decimal
  form of the key is that of \<open>toString\<close>, for numbers of any size.
\<close>

fun truthy :: "jsvalue \<Rightarrow> bool" where
  "truthy JNull = False"
| "truthy (JBool b) = b"
| "truthy (JNum n) = (n \<noteq> 0)"
| "truthy (JStr s) = (s \<noteq> [])"
| "truthy (JArr xs) = True"
| "truthy (JObj kvs) = True"

definition number_key :: "int option \<Rightarrow> string" where
  "number_key n =
     (case n of
        None \<Rightarrow> ''NaN''
      | Some i \<Rightarrow> if i < 0 then CHR ''-'' # toString (nat (- i)) else toString (nat i))"

fun get_index :: "jsvalue \<Rightarrow> int option \<Rightarrow> js_error + jsvalue option" where
  "get_index JNull n = Inl TypeError"
| "get_index (JBool b) n = Inr None"
| "get_index (JNum i) n = Inr None"
| "get_index (JStr s) n = Inr (map_option (\<lambda>c. JStr [c]) (array_get s n))"
| "get_index (JArr xs) n = Inr (array_get xs n)"
| "get_index (JObj kvs) n = Inr (map_of kvs (number_key n))"

fun stringifies :: "jsvalue \<Rightarrow> bool" where
  "stringifies (JObj kvs) = (''toString'' \<notin> set (map fst kvs))"
| "stringifies (JArr xs) = (\<forall>x \<in> set xs. stringifies x)"
| "stringifies v = True"

text \<open>
  Whether \<open>renderCharacterInfo\<close> and \<open>renderBag\<close> run to their end on a truthy value that
  is no Character, or throw.  \<open>field\<close> is \<^verbatim>\<open>value.key\<close> for the keys the rendering
  reads; \<open>date_ok\<close> is \<^verbatim>\<open>x ? new Date(x).toLocaleDateString() : 'Unknown'\<close>; \<open>text_ok\<close>
  is the value in a template or as a key of the table of emojis.  An item that is
  \<^verbatim>\<open>null\<close> throws; a bag that is truthy and no array throws at \<^verbatim>\<open>forEach\<close>, unless
  its \<^verbatim>\<open>length\<close> is 0; \<^verbatim>\<open>imageUrl.includes\<close> exists for strings and arrays only.
\<close>

fun field :: "jsvalue \<Rightarrow> string \<Rightarrow> jsvalue option" where
  "field (JObj kvs) k = map_of kvs k"
| "field v k = None"

definition date_ok :: "jsvalue option \<Rightarrow> bool" where
  "date_ok x = (case x of None \<Rightarrow> True | Some v \<Rightarrow> \<not> truthy v \<or> stringifies v)"

definition text_ok :: "jsvalue option \<Rightarrow> bool" where
  "text_ok x = (case x of None \<Rightarrow> True | Some v \<Rightarrow> stringifies v)"

definition item_renders :: "jsvalue \<Rightarrow> bool" where
  "item_renders item \<longleftrightarrow>
     item \<noteq> JNull \<and> date_ok (field item ''addedAt'') \<and> text_ok (field item ''type'') \<and>
     text_ok (field item ''name'') \<and> date_ok (field item ''description'')"

definition bag_renders :: "jsvalue option \<Rightarrow> bool" where
  "bag_renders b =
     (case b of
        None \<Rightarrow> True
      | Some v \<Rightarrow>
          if \<not> truthy v then True
          else (case v of
                  JArr items \<Rightarrow> list_all item_renders items
                | JObj kvs \<Rightarrow> map_of kvs ''length'' = Some (JNum 0)
                | _ \<Rightarrow> False))"

definition renders :: "jsvalue \<Rightarrow> bool" where
  "renders c =
     (case c of
        JObj kvs \<Rightarrow>
          date_ok (map_of kvs ''createdAt'') \<and>
          (case map_of kvs ''imageUrl'' of
             Some (JStr u) \<Rightarrow> True
           | Some (JArr us) \<Rightarrow> stringifies (JArr us)
           | _ \<Rightarrow> False) \<and>
          text_ok (map_of kvs ''name'') \<and> text_ok (map_of kvs ''type'') \<and>
          text_ok (map_of kvs ''description'') \<and> bag_renders (map_of kvs ''bag'')
      | _ \<Rightarrow> False)"

text \<open>
  A detail page whose \<open>this.characters\<close> is no array of Characters: that value, the value
  of \<open>this.character\<close> (\<open>None\<close> when it is \<^verbatim>\<open>null\<close> or \<^verbatim>\<open>undefined\<close>), and the rest of
  the page, of which the fields \<open>characters\<close> and \<open>character\<close> say nothing.  The handlers
  of the page are not modelled on it.
\<close>

record foreign_detail =
  held :: jsvalue
  held_character :: "jsvalue option"
  rest :: detail

definition initializeForeign :: "jsvalue \<Rightarrow> string \<Rightarrow> detail \<Rightarrow> foreign_detail" where
  "initializeForeign v index d =
     (case get_index v (parseInt index) of
        Inl e \<Rightarrow>
          \<lparr>held = v, held_character = None,
           rest = showError ErrorLoadingCharacter (console_error ErrorInitializingDetail d)\<rparr>
      | Inr None \<Rightarrow>
          \<lparr>held = v, held_character = None,
           rest = (showError CharacterNotFound d)\<lparr>redirect := Some (''index.html'', 2000)\<rparr>\<rparr>
      | Inr (Some c) \<Rightarrow>
          if \<not> truthy c then
            \<lparr>held = v, held_character = Some c,
             rest = (showError CharacterNotFound d)\<lparr>redirect := Some (''index.html'', 2000)\<rparr>\<rparr>
          else if renders c then
            \<lparr>held = v, held_character = Some c, rest = d\<lparr>view := Ready, listening := True\<rparr>\<rparr>
          else
            \<lparr>held = v, held_character = Some c,
             rest = showError ErrorLoadingCharacter (console_error ErrorInitializingDetail d)\<rparr>)"

text \<open>
  \<open>initializeDetail\<close>.  With the session slot empty the page shows the error and starts
  the timer, before anything is loaded.  Otherwise the store is loaded and the element at
  \<open>parseInt\<close> of the slot is read; \<^verbatim>\<open>undefined\<close> gives the error and the timer, an
  element is rendered.  On an array of Characters the rendering reads the fields of the
  Character only and nothing reaches the \<^verbatim>\<open>catch\<close>; on another value (\<open>Inl\<close>) reading
  the element or rendering it may throw, and the \<^verbatim>\<open>catch\<close> logs the exception and
  shows the error of loading, with no timer.
\<close>

definition initializeDetail :: "json \<Rightarrow> detail \<Rightarrow> foreign_detail + detail" where
  "initializeDetail J d =
     (let d1 = d\<lparr>characterIndex := sessionStorage d\<rparr>
      in case characterIndex d1 of
           None \<Rightarrow>
             Inr ((showError NoCharacterSelected d1)\<lparr>redirect := Some (''index.html'', 2000)\<rparr>)
         | Some index \<Rightarrow>
             (case detail_loadCharacters J d1 of
                Inl v \<Rightarrow> Inl (initializeForeign v index d1)
              | Inr d2 \<Rightarrow>
                  (let d3 = d2\<lparr>character := array_get (characters d2) (parseInt index)\<rparr>
                   in case character d3 of
                        None \<Rightarrow>
                          Inr ((showError CharacterNotFound d3)
                                 \<lparr>redirect := Some (''index.html'', 2000)\<rparr>)
                      | Some c \<Rightarrow> Inr (d3\<lparr>view := Ready, listening := True\<rparr>))))"

text \<open>The constructor, on a page that is loading.\<close>

definition CharacterDetailManager :: "json \<Rightarrow> detail \<Rightarrow> foreign_detail + detail" where
  "CharacterDetailManager J d =
     initializeDetail J (d\<lparr>characters := [], characterIndex := None, character := None\<rparr>)"

text \<open>\<open>this.character.bag || []\<close>, as \<open>renderBag\<close> reads the bag.\<close>

definition bagArray :: "character \<Rightarrow> item list" where
  "bagArray c = (case bag c of None \<Rightarrow> [] | Some b \<Rightarrow> b)"

text \<open>
  \<open>validateItemData\<close>.  The third check reads \<open>this.character.bag\<close>, which throws when
  there is no character.
\<close>

definition validateItemData :: "detail \<Rightarrow> item \<Rightarrow> js_error + bool \<times> detail" where
  "validateItemData d data =
     (if itype data = [] then Inr (False, showMessage SelectItemType d)
      else if iname data = [] \<or> length (iname data) < 2
        then Inr (False, showMessage ItemNameTooShort d)
      else (case character d of
              None \<Rightarrow> Inl TypeError
            | Some c \<Rightarrow>
                (case bag c of
                   None \<Rightarrow> Inr (True, d)
                 | Some b \<Rightarrow>
                     if list_ex (\<lambda>item. toLowerCase (iname item) = toLowerCase (iname data)) b
                     then Inr (False, showMessage ItemNameExists d)
                     else Inr (True, d))))"

text \<open>
  \<^verbatim>\<open>this.characters[parseInt(this.characterIndex)] = this.character\<close>.  A number within
  the bounds replaces the element; NaN or a negative number names a property that is no
  element of the array, which stays as it is.  A number beyond the last element does not
  occur here: \<open>this.character\<close> is set by \<open>initializeDetail\<close> only, to the element at that
  very index, and no operation of the page makes the array shorter.
\<close>

definition array_set :: "'a list \<Rightarrow> int option \<Rightarrow> 'a \<Rightarrow> 'a list" where
  "array_set xs n v =
     (case n of
        None \<Rightarrow> xs
      | Some i \<Rightarrow> if 0 \<le> i \<and> i < int (length xs) then xs[nat i := v] else xs)"

definition parseInt_index :: "string option \<Rightarrow> int option" where
  "parseInt_index index = (case index of None \<Rightarrow> None | Some s \<Rightarrow> parseInt s)"

text \<open>
  \<open>addItemToBag\<close>: the bag is created when missing, the item pushed, the character
  written back, the array saved.  Without a character the first line throws, and the
  \<^verbatim>\<open>catch\<close> reports it.
\<close>

definition addItemToBag :: "json \<Rightarrow> detail \<Rightarrow> item \<Rightarrow> detail" where
  "addItemToBag J d itemData =
     (case character d of
        None \<Rightarrow> showMessage ErrorAddingItem (console_error ErrorAddingItemLog d)
      | Some c \<Rightarrow>
          (let c' = c\<lparr>bag := Some (bagArray c @ [itemData])\<rparr>;
               d1 = d\<lparr>character := Some c',
                      characters := array_set (characters d) (parseInt_index (characterIndex d)) c'\<rparr>
           in showMessage (ItemAdded (iname itemData) (name c')) (detail_saveCharacters J d1)))"

text \<open>
  The item \<open>handleAddItem\<close> builds from the form, the generated id and the date.
\<close>

definition itemData :: "itemForm \<Rightarrow> string \<Rightarrow> string \<Rightarrow> js_error + item" where
  "itemData form newId date =
     (case (g_name form, g_description form) of
        (Some n, Some ds) \<Rightarrow>
          Inr \<lparr>iid = newId, itype = (case g_type form of None \<Rightarrow> [] | Some t \<Rightarrow> t),
               iname = trim n, idescription = trim ds, addedAt = date\<rparr>
      | _ \<Rightarrow> Inl TypeError)"

definition handleAddItem ::
  "json \<Rightarrow> detail \<Rightarrow> itemForm \<Rightarrow> string \<Rightarrow> string \<Rightarrow> js_error + detail" where
  "handleAddItem J d form newId date =
     (case itemData form newId date of
        Inl e \<Rightarrow> Inl e
      | Inr data \<Rightarrow>
          (case validateItemData d data of
             Inl e \<Rightarrow> Inl e
           | Inr (ok, d') \<Rightarrow> if \<not> ok then Inr d' else Inr (addItemToBag J d' data)))"

text \<open>
  \<open>removeItem\<close>, with the answer to the confirmation dialog as an argument.  Reading the
  bag of no character, an element of a missing bag, or the name of an item that is
  \<^verbatim>\<open>undefined\<close> (for the text of the dialog) throws before the dialog opens; the
  \<^verbatim>\<open>catch\<close> logs the exception and shows the error message.
\<close>

definition removeItem :: "json \<Rightarrow> detail \<Rightarrow> int \<Rightarrow> bool \<Rightarrow> detail" where
  "removeItem J d index confirmed =
     (case (case character d of
              None \<Rightarrow> Inl TypeError
            | Some c \<Rightarrow>
                (case bag c of
                   None \<Rightarrow> Inl TypeError
                 | Some b \<Rightarrow>
                     (case array_get b (Some index) of
                        None \<Rightarrow> Inl TypeError
                      | Some item \<Rightarrow>
                          if confirmed then
                            (let c' = c\<lparr>bag := Some (splice1 (nat index) b)\<rparr>;
                                 d1 = d\<lparr>character := Some c',
                                        characters := array_set (characters d)
                                          (parseInt_index (characterIndex d)) c'\<rparr>
                             in Inr (showMessage (ItemRemoved (iname item))
                                      (detail_saveCharacters J d1)))
                          else Inr d))) of
        Inr d' \<Rightarrow> d'
      | Inl e \<Rightarrow> showMessage ErrorRemovingItem (console_error ErrorRemovingItemLog d))"

section \<open>The platform's JSON\<close>

text \<open>
  \<^verbatim>\<open>JSON.stringify\<close> of a value, with no indentation.  A string is quoted as
  QuoteJSONString does: the quote and the backslash are escaped, the control characters
  are written \<^verbatim>\<open>\b \t \n \f \r\<close> or \<^verbatim>\<open>\u00xx\<close> with lower-case digits, every
  other code unit is written as it is.  A number is written in decimal digits, which is
  what the platform writes for an integer below \<open>10^21\<close>.
\<close>

definition hex_digit :: "nat \<Rightarrow> char" where
  "hex_digit n = (if n < 10 then char_of (48 + n) else char_of (87 + n))"

definition QuoteJSONString_unit :: "char \<Rightarrow> string" where
  "QuoteJSONString_unit c =
     (let n = (of_char c :: nat)
      in if n = 0x22 then [CHR 0x5C, CHR 0x22]
         else if n = 0x5C then [CHR 0x5C, CHR 0x5C]
         else if n = 0x08 then [CHR 0x5C, CHR ''b'']
         else if n = 0x09 then [CHR 0x5C, CHR ''t'']
         else if n = 0x0A then [CHR 0x5C, CHR ''n'']
         else if n = 0x0C then [CHR 0x5C, CHR ''f'']
         else if n = 0x0D then [CHR 0x5C, CHR ''r'']
         else if n < 0x20
           then [CHR 0x5C, CHR ''u'', CHR ''0'', CHR ''0'', hex_digit (n div 16), hex_digit (n mod 16)]
         else [c])"

definition QuoteJSONString :: "string \<Rightarrow> string" where
  "QuoteJSONString s = CHR 0x22 # concat (map QuoteJSONString_unit s) @ [CHR 0x22]"

definition Number_toString :: "int \<Rightarrow> string" where
  "Number_toString i = (if i < 0 then CHR ''-'' # toString (nat (- i)) else toString (nat i))"

fun stringify :: "jsvalue \<Rightarrow> string"
  and stringify_elements :: "jsvalue list \<Rightarrow> string"
  and stringify_members :: "(string \<times> jsvalue) list \<Rightarrow> string" where
  "stringify JNull = ''null''"
| "stringify (JBool b) = (if b then ''true'' else ''false'')"
| "stringify (JNum i) = Number_toString i"
| "stringify (JStr s) = QuoteJSONString s"
| "stringify (JArr xs) = CHR ''['' # stringify_elements xs @ '']''"
| "stringify (JObj ms) = CHR ''{'' # stringify_members ms @ ''}''"
| "stringify_elements [] = []"
| "stringify_elements [x] = stringify x"
| "stringify_elements (x # y # xs) = stringify x @ CHR '','' # stringify_elements (y # xs)"
| "stringify_members [] = []"
| "stringify_members [(k, v)] = QuoteJSONString k @ CHR '':'' # stringify v"
| "stringify_members ((k, v) # m # ms) =
     QuoteJSONString k @ CHR '':'' # stringify v @ CHR '','' # stringify_members (m # ms)"

text \<open>
  \<^verbatim>\<open>JSON.parse\<close>.  White space between the tokens is the space, the tabulation, the
  line feed and the carriage return.
\<close>

definition JSONWhiteSpace :: "char \<Rightarrow> bool" where
  "JSONWhiteSpace c \<longleftrightarrow> c = CHR 0x20 \<or> c = CHR 0x09 \<or> c = CHR 0x0A \<or> c = CHR 0x0D"

definition skip :: "string \<Rightarrow> string" where
  "skip text = dropWhile JSONWhiteSpace text"

text \<open>
  The characters of a string after its opening quote, up to the closing quote: the
  string they denote and the text after it.  A control character, an escape that JSON
  does not have and a missing closing quote are syntax errors.  An escape \<^verbatim>\<open>\u\<close> above
  \<^verbatim>\<open>00ff\<close> denotes a code unit that the strings of this model do not have and is not
  read.
\<close>

definition escape :: "char \<Rightarrow> char option" where
  "escape e =
     (if e = CHR 0x22 then Some (CHR 0x22)
      else if e = CHR 0x5C then Some (CHR 0x5C)
      else if e = CHR ''/'' then Some (CHR ''/'')
      else if e = CHR ''b'' then Some (CHR 0x08)
      else if e = CHR ''f'' then Some (CHR 0x0C)
      else if e = CHR ''n'' then Some (CHR 0x0A)
      else if e = CHR ''r'' then Some (CHR 0x0D)
      else if e = CHR ''t'' then Some (CHR 0x09)
      else None)"

definition hex4 :: "string \<Rightarrow> nat option" where
  "hex4 Z = (if length Z = 4 \<and> list_all (\<lambda>c. digit_of 16 c \<noteq> None) Z
             then Some (digits_value 16 Z) else None)"

fun JSONStringCharacters :: "string \<Rightarrow> (string \<times> string) option" where
  "JSONStringCharacters [] = None"
| "JSONStringCharacters (c # text) =
     (if c = CHR 0x22 then Some ([], text)
      else if c = CHR 0x5C then
        (case text of
           [] \<Rightarrow> None
         | e # text' \<Rightarrow>
             if e = CHR ''u'' then
               (case hex4 (take 4 text') of
                  None \<Rightarrow> None
                | Some n \<Rightarrow>
                    if n < 256
                    then map_option (apfst ((#) (char_of n))) (JSONStringCharacters (drop 4 text'))
                    else None)
             else (case escape e of
                     None \<Rightarrow> None
                   | Some u \<Rightarrow> map_option (apfst ((#) u)) (JSONStringCharacters text')))
      else if (of_char c :: nat) < 0x20 then None
      else map_option (apfst ((#) c)) (JSONStringCharacters text))"

text \<open>
  A number: an optional minus sign and decimal digits with no leading zero.  A fraction
  or an exponent would make it a value that needs floating point, and is not read; the
  rounding of integers beyond \<open>2^53\<close> is left out.
\<close>

definition JSONNumber :: "string \<Rightarrow> (int \<times> string) option" where
  "JSONNumber text =
     (let neg = (text \<noteq> [] \<and> hd text = CHR ''-'');
          s = (if neg then tl text else text);
          Z = takeWhile (\<lambda>c. digit_of 10 c \<noteq> None) s;
          after = dropWhile (\<lambda>c. digit_of 10 c \<noteq> None) s
      in if Z = [] then None
         else if 1 < length Z \<and> hd Z = CHR ''0'' then None
         else if after \<noteq> [] \<and> (hd after = CHR ''.'' \<or> hd after = CHR ''e'' \<or> hd after = CHR ''E'')
           then None
         else Some ((if neg then - 1 else 1) * int (digits_value 10 Z), after))"

text \<open>
  The members of an object are defined in the order of the text, as CreateDataProperty
  does: a key that the object has already gets the new value at its place, a key that is
  an array index goes among the array indices, in ascending order and before the other
  keys, any other key goes to the end.
\<close>

definition array_index :: "string \<Rightarrow> nat option" where
  "array_index k =
     (if k \<noteq> [] \<and> list_all (\<lambda>c. digit_of 10 c \<noteq> None) k \<and> (k = ''0'' \<or> hd k \<noteq> CHR ''0'') \<and>
         digits_value 10 k < 4294967295
      then Some (digits_value 10 k) else None)"

fun insert_index :: "nat \<Rightarrow> string \<times> jsvalue \<Rightarrow> (string \<times> jsvalue) list \<Rightarrow> (string \<times> jsvalue) list" where
  "insert_index n m [] = [m]"
| "insert_index n m (m' # ms) =
     (case array_index (fst m') of
        None \<Rightarrow> m # m' # ms
      | Some n' \<Rightarrow> if n' < n then m' # insert_index n m ms else m # m' # ms)"

definition CreateDataProperty :: "(string \<times> jsvalue) list \<Rightarrow> string \<times> jsvalue \<Rightarrow> (string \<times> jsvalue) list" where
  "CreateDataProperty ms m =
     (if fst m \<in> set (map fst ms) then map (\<lambda>m'. if fst m' = fst m then m else m') ms
      else (case array_index (fst m) of
              None \<Rightarrow> ms @ [m]
            | Some n \<Rightarrow> insert_index n m ms))"

text \<open>
  A value, the elements of an array after \<^verbatim>\<open>[\<close> and the members of an object after
  \<^verbatim>\<open>{\<close>, each with the text that follows it.  Every call takes one unit of \<open>fuel\<close>; a
  chain of calls is never longer than the text, which is the fuel \<open>JSON_parse_text\<close>
  gives.
\<close>

fun JSONValue :: "nat \<Rightarrow> string \<Rightarrow> (jsvalue \<times> string) option"
  and JSONElementList :: "nat \<Rightarrow> string \<Rightarrow> (jsvalue list \<times> string) option"
  and JSONMemberList :: "nat \<Rightarrow> string \<Rightarrow> ((string \<times> jsvalue) list \<times> string) option" where
  "JSONValue 0 text = None"
| "JSONValue (Suc fuel) text =
     (case skip text of
        [] \<Rightarrow> None
      | c # s \<Rightarrow>
          if c = CHR ''['' then
            (case skip s of
               [] \<Rightarrow> None
             | c' # s' \<Rightarrow>
                 if c' = CHR '']'' then Some (JArr [], s')
                 else map_option (apfst JArr) (JSONElementList fuel s))
          else if c = CHR ''{'' then
            (case skip s of
               [] \<Rightarrow> None
             | c' # s' \<Rightarrow>
                 if c' = CHR ''}'' then Some (JObj [], s')
                 else map_option (apfst (\<lambda>ms. JObj (foldl CreateDataProperty [] ms)))
                        (JSONMemberList fuel s))
          else if c = CHR 0x22 then map_option (apfst JStr) (JSONStringCharacters s)
          else if take 4 (c # s) = ''null'' then Some (JNull, drop 4 (c # s))
          else if take 4 (c # s) = ''true'' then Some (JBool True, drop 4 (c # s))
          else if take 5 (c # s) = ''false'' then Some (JBool False, drop 5 (c # s))
          else map_option (apfst JNum) (JSONNumber (c # s)))"
| "JSONElementList 0 text = None"
| "JSONElementList (Suc fuel) text =
     (case JSONValue fuel text of
        None \<Rightarrow> None
      | Some (v, s) \<Rightarrow>
          (case skip s of
             [] \<Rightarrow> None
           | c # s' \<Rightarrow>
               if c = CHR '','' then map_option (apfst ((#) v)) (JSONElementList fuel s')
               else if c = CHR '']'' then Some ([v], s')
               else None))"
| "JSONMemberList 0 text = None"
| "JSONMemberList (Suc fuel) text =
     (case skip text of
        [] \<Rightarrow> None
      | q # s \<Rightarrow>
          if q \<noteq> CHR 0x22 then None
          else (case JSONStringCharacters s of
                  None \<Rightarrow> None
                | Some (k, s1) \<Rightarrow>
                    (case skip s1 of
                       [] \<Rightarrow> None
                     | c # s2 \<Rightarrow>
                         if c \<noteq> CHR '':'' then None
                         else (case JSONValue fuel s2 of
                                 None \<Rightarrow> None
                               | Some (v, s3) \<Rightarrow>
                                   (case skip s3 of
                                      [] \<Rightarrow> None
                                    | c' # s4 \<Rightarrow>
                                        if c' = CHR '','' then
                                          map_option (apfst ((#) (k, v))) (JSONMemberList fuel s4)
                                        else if c' = CHR ''}'' then Some ([(k, v)], s4)
                                        else None)))))"

definition JSON_parse_text :: "string \<Rightarrow> jsvalue option" where
  "JSON_parse_text text =
     (case JSONValue (Suc (length text)) text of
        None \<Rightarrow> None
      | Some (v, after) \<Rightarrow> if skip after = [] then Some v else None)"

text \<open>
  An Item and a Character as values: the members in the order in which \<open>handleAddItem\<close>
  and \<open>handleFormSubmit\<close> write them, and back; a Character with no bag has no member
  \<^verbatim>\<open>bag\<close>.  \<open>as_characters\<close> tells an array of such objects, which the pages hold as the
  list of the records, from any other value: an object with other members, or with these
  in another order (as when the detail page has given a Character its missing bag, after
  \<^verbatim>\<open>createdAt\<close>), is another value.  \<open>JSON\<close> is the pair of the platform for the pages:
  the parser, with an array of Characters held as the list, and the serializer of such a
  list.
\<close>

definition item_value :: "item \<Rightarrow> jsvalue" where
  "item_value i =
     JObj [(''id'', JStr (iid i)), (''type'', JStr (itype i)), (''name'', JStr (iname i)),
           (''description'', JStr (idescription i)), (''addedAt'', JStr (addedAt i))]"

definition character_value :: "character \<Rightarrow> jsvalue" where
  "character_value c =
     JObj ([(''id'', JNum (cid c)), (''type'', JStr (ctype c)), (''name'', JStr (name c)),
            (''description'', JStr (description c)), (''imageUrl'', JStr (imageUrl c))] @
           (case bag c of None \<Rightarrow> [] | Some items \<Rightarrow> [(''bag'', JArr (map item_value items))]) @
           [(''createdAt'', JStr (createdAt c))])"

definition as_item :: "jsvalue \<Rightarrow> item option" where
  "as_item v =
     (case v of
        JObj ms \<Rightarrow>
          if map fst ms = [''id'', ''type'', ''name'', ''description'', ''addedAt'']
          then (case map snd ms of
                  [JStr i, JStr t, JStr n, JStr d, JStr a] \<Rightarrow>
                    Some \<lparr>iid = i, itype = t, iname = n, idescription = d, addedAt = a\<rparr>
                | _ \<Rightarrow> None)
          else None
      | _ \<Rightarrow> None)"

definition as_character :: "jsvalue \<Rightarrow> character option" where
  "as_character v =
     (case v of
        JObj ms \<Rightarrow>
          if map fst ms = [''id'', ''type'', ''name'', ''description'', ''imageUrl'', ''bag'',
                           ''createdAt'']
          then (case map snd ms of
                  [JNum i, JStr t, JStr n, JStr d, JStr u, JArr b, JStr c] \<Rightarrow>
                    map_option
                      (\<lambda>items. \<lparr>cid = i, ctype = t, name = n, description = d, imageUrl = u,
                                bag = Some items, createdAt = c\<rparr>)
                      (those (map as_item b))
                | _ \<Rightarrow> None)
          else if map fst ms = [''id'', ''type'', ''name'', ''description'', ''imageUrl'',
                                ''createdAt'']
          then (case map snd ms of
                  [JNum i, JStr t, JStr n, JStr d, JStr u, JStr c] \<Rightarrow>
                    Some \<lparr>cid = i, ctype = t, name = n, description = d, imageUrl = u,
                          bag = None, createdAt = c\<rparr>
                | _ \<Rightarrow> None)
          else None
      | _ \<Rightarrow> None)"

definition as_characters :: "jsvalue \<Rightarrow> parsed" where
  "as_characters v =
     (case v of
        JArr xs \<Rightarrow> (case those (map as_character xs) of
                      Some cs \<Rightarrow> Characters cs
                    | None \<Rightarrow> Foreign v)
      | _ \<Rightarrow> Foreign v)"

definition JSON :: json where
  "JSON = \<lparr>JSON_parse = (\<lambda>text. map_option as_characters (JSON_parse_text text)),
           JSON_stringify = (\<lambda>cs. stringify (JArr (map character_value cs)))\<rparr>"

text \<open>\<^verbatim>\<open>Number.isSafeInteger\<close>: an integer that the platform holds exactly.\<close>

definition isSafeInteger :: "int \<Rightarrow> bool" where
  "isSafeInteger i \<longleftrightarrow> \<bar>i\<bar> \<le> 9007199254740991"

text \<open>
  For the properties of \<open>JSONValue\<close>: a text that can follow a value (the end, a comma or
  a closing bracket); a text that starts as a value does (no white space, no closing
  bracket); and the values whose objects name each key once and no array index, the
  members of which \<open>CreateDataProperty\<close> keeps in the order of the text.
\<close>

definition delimited :: "string \<Rightarrow> bool" where
  "delimited s \<longleftrightarrow> s = [] \<or> hd s = CHR '','' \<or> hd s = CHR '']'' \<or> hd s = CHR ''}''"

definition opens :: "string \<Rightarrow> bool" where
  "opens s \<longleftrightarrow> s \<noteq> [] \<and> \<not> JSONWhiteSpace (hd s) \<and> hd s \<noteq> CHR '']'' \<and> hd s \<noteq> CHR ''}''"

fun plain :: "jsvalue \<Rightarrow> bool"
  and plain_elements :: "jsvalue list \<Rightarrow> bool"
  and plain_members :: "(string \<times> jsvalue) list \<Rightarrow> bool" where
  "plain (JArr xs) = plain_elements xs"
| "plain (JObj ms) =
     (distinct (map fst ms) \<and> list_all (\<lambda>m. array_index (fst m) = None) ms \<and> plain_members ms)"
| "plain JNull = True"
| "plain (JBool b) = True"
| "plain (JNum i) = True"
| "plain (JStr s) = True"
| "plain_elements [] = True"
| "plain_elements (x # xs) = (plain x \<and> plain_elements xs)"
| "plain_members [] = True"
| "plain_members (m # ms) = (plain (snd m) \<and> plain_members ms)"

section \<open>Sample data\<close>

text \<open>
  The Character and the form of the scenarios, a page with nothing stored, and a
  \<open>json\<close> that knows the two documents the scenarios store and two texts that are no
  arrays of Characters.
\<close>

definition ember :: character where
  "ember = \<lparr>cid = 1, ctype = ''Dragon'', name = ''Ember'',
             description = ''A fierce red dragon'', imageUrl = ''dragon1.png'',
             bag = Some [], createdAt = ''2025-01-01T00:00:00.000Z''\<rparr>"

definition table_json :: json where
  "table_json =
     \<lparr>JSON_parse = (\<lambda>s. if s = ''[]'' then Some (Characters [])
                         else if s = ''[Ember]'' then Some (Characters [ember])
                         else if s = ''null'' then Some (Foreign JNull)
                         else if s = ''[{}]'' then Some (Foreign (JArr [JObj []]))
                         else None),
      JSON_stringify = (\<lambda>cs. if cs = [ember] then ''[Ember]'' else ''[]'')\<rparr>"

definition ash :: character where
  "ash = \<lparr>cid = 2, ctype = ''Human'', name = ''Ash'',
           description = ''A wandering knight'', imageUrl = ''knight.png'',
           bag = Some [], createdAt = ''2025-01-02T00:00:00.000Z''\<rparr>"

definition rook :: character where
  "rook = \<lparr>cid = 3, ctype = ''Human'', name = ''Rook'',
            description = ''A quiet archivist'', imageUrl = ''rook.png'',
            bag = Some [], createdAt = ''2025-01-03T00:00:00.000Z''\<rparr>"

definition empty_page :: page where
  "empty_page = \<lparr>localStorage = None, sessionStorage = None, quota = 5000000, characters = [],
                  message = None, console = [], href = None\<rparr>"

definition ember_form :: characterForm where
  "ember_form = \<lparr>f_type = Some ''Dragon'', f_name = Some ''Ember'',
                  f_description = Some ''A fierce red dragon'', f_customImageUrl = Some [],
                  f_imageUrl = Some ''dragon1.png''\<rparr>"

definition empty_detail :: detail where
  "empty_detail = \<lparr>localStorage = None, sessionStorage = None, quota = 5000000, characters = [],
                    message = None, console = [], href = None, characterIndex = None,
                    character = None, view = Loading, redirect = None, listening = False\<rparr>"

definition rune :: item where
  "rune = \<lparr>iid = ''1735689600000k3j9x2m1q'', itype = ''Rune'', iname = ''Rune of Power'',
            idescription = [], addedAt = ''2025-01-01T00:00:00.000Z''\<rparr>"

definition rune_form :: itemForm where
  "rune_form = \<lparr>g_type = Some ''Rune'', g_name = Some ''Rune of Power'',
                 g_description = Some []\<rparr>"

text \<open>The detail page after \<open>initializeDetail\<close> for position 0 of the stored \<open>[ember]\<close>.\<close>

definition ember_detail :: detail where
  "ember_detail = \<lparr>localStorage = Some ''[Ember]'', sessionStorage = Some ''0'',
                    quota = 5000000, characters = [ember], message = None, console = [],
                    href = None, characterIndex = Some ''0'', character = Some ember,
                    view = Ready, redirect = None, listening = True\<rparr>"

text \<open>
  The invariant of the bags: within one bag no two items have the same name, without
  regard to case.  For a page: it holds of every Character of the array and of the
  current Character.
\<close>

definition bag_names_unique :: "character \<Rightarrow> bool" where
  "bag_names_unique c \<longleftrightarrow> distinct (map (\<lambda>item. toLowerCase (iname item)) (bagArray c))"

definition bags_unique :: "detail \<Rightarrow> bool" where
  "bags_unique d \<longleftrightarrow>
     list_all bag_names_unique (characters d) \<and>
     (case character d of None \<Rightarrow> True | Some c \<Rightarrow> bag_names_unique c)"

section \<open>Properties of the gallery page\<close>

lemma saveCharacters_keeps:
  "characters (saveCharacters J p) = characters p"
  "sessionStorage (saveCharacters J p) = sessionStorage p"
  "quota (saveCharacters J p) = quota p"
  by (simp_all add: saveCharacters_def localStorage_setItem_def showMessage_def console_error_def)

lemma saveCharacters_localStorage:
  "localStorage (saveCharacters J p) =
     (if quota p < length (JSON_stringify J (characters p)) then localStorage p
      else Some (JSON_stringify J (characters p)))"
  by (simp add: saveCharacters_def localStorage_setItem_def showMessage_def console_error_def)

lemma addCharacter_characters:
  "characters (addCharacter J p d) = characters p @ [d]"
  by (simp add: addCharacter_def showMessage_def saveCharacters_keeps)

lemma validate_accepts_page:
  "fst (validateCharacterData m p d) \<Longrightarrow> snd (validateCharacterData m p d) = p"
  by (simp add: validateCharacterData_def split: if_splits)

lemma validate_keeps:
  "characters (snd (validateCharacterData m p d)) = characters p"
  "localStorage (snd (validateCharacterData m p d)) = localStorage p"
  "sessionStorage (snd (validateCharacterData m p d)) = sessionStorage p"
  by (simp_all add: validateCharacterData_def showMessage_def)

lemma validate_duplicate_rejected:
  "list_ex (\<lambda>c. toLowerCase (name c) = toLowerCase (name d)) (characters p)
     \<Longrightarrow> \<not> fst (validateCharacterData m p d)"
  by (simp add: validateCharacterData_def)

lemma validate_rejection_message:
  "\<not> fst (validateCharacterData m p d) \<Longrightarrow>
     message (snd (validateCharacterData m p d)) \<in>
       Some ` {SelectCharacterType, CharacterNameTooShort, DescriptionTooShort m, SelectImage,
               CharacterNameExists}"
  by (auto simp: validateCharacterData_def showMessage_def split: if_splits)

lemma handleFormSubmit_accept:
  assumes "characterData form now date = Inr data" "fst (validateCharacterData 10 p data)"
  shows "handleFormSubmit J p form now date = Inr (addCharacter J p data)"
  using assms validate_accepts_page [OF assms(2)]
  by (cases "validateCharacterData 10 p data") (auto simp: handleFormSubmit_def)

lemma handleFormSubmit_reject:
  assumes "characterData form now date = Inr data" "\<not> fst (validateCharacterData 10 p data)"
  shows "handleFormSubmit J p form now date = Inr (snd (validateCharacterData 10 p data))"
  using assms by (cases "validateCharacterData 10 p data") (auto simp: handleFormSubmit_def)

lemma handleFormSubmit2_accept:
  assumes "characterData2 form now date = Inr data" "fst (validateCharacterData 5 p data)"
  shows "handleFormSubmit2 J p form now date = Inr (addCharacter J p data)"
  using assms validate_accepts_page [OF assms(2)]
  by (cases "validateCharacterData 5 p data") (auto simp: handleFormSubmit2_def)

lemma handleFormSubmit2_reject:
  assumes "characterData2 form now date = Inr data" "\<not> fst (validateCharacterData 5 p data)"
  shows "handleFormSubmit2 J p form now date = Inr (snd (validateCharacterData 5 p data))"
  using assms by (cases "validateCharacterData 5 p data") (auto simp: handleFormSubmit2_def)


text \<open>
  C1, as stated, fails: the stored fields are not in every case the submitted values.
  The second variant stores the selected file under \<^verbatim>\<open>assets/images/\<close>; both variants
  store the name (and the description) without the white space around it.
\<close>

theorem submit_stores_normalized_counterexample:
  "f_imageUrl ember_form = Some ''dragon1.png'' \<and>
   handleFormSubmit2 table_json empty_page ember_form 1 ''2025-01-01T00:00:00.000Z''
     = Inr (addCharacter table_json empty_page
              (ember\<lparr>imageUrl := ''assets/images/dragon1.png''\<rparr>)) \<and>
   map imageUrl (characters (addCharacter table_json empty_page
              (ember\<lparr>imageUrl := ''assets/images/dragon1.png''\<rparr>)))
     = [''assets/images/dragon1.png''] \<and>
   ''assets/images/dragon1.png'' \<noteq> ''dragon1.png'' \<and>
   f_name (ember_form\<lparr>f_name := Some '' Ember ''\<rparr>) = Some '' Ember '' \<and>
   handleFormSubmit table_json empty_page (ember_form\<lparr>f_name := Some '' Ember ''\<rparr>) 1
       ''2025-01-01T00:00:00.000Z''
     = Inr (addCharacter table_json empty_page ember) \<and>
   map name (characters (addCharacter table_json empty_page ember)) = [''Ember''] \<and>
   ''Ember'' \<noteq> '' Ember ''"
proof -
  have s2: "handleFormSubmit2 table_json empty_page ember_form 1 ''2025-01-01T00:00:00.000Z''
     = Inr (addCharacter table_json empty_page
              (ember\<lparr>imageUrl := ''assets/images/dragon1.png''\<rparr>))"
    by (rule handleFormSubmit2_accept)
       (simp_all add: characterData2_def ember_form_def ember_def trim_def isWhiteSpace_def
         validateCharacterData_def empty_page_def)
  have s1: "handleFormSubmit table_json empty_page (ember_form\<lparr>f_name := Some '' Ember ''\<rparr>) 1
       ''2025-01-01T00:00:00.000Z'' = Inr (addCharacter table_json empty_page ember)"
    by (rule handleFormSubmit_accept)
       (simp_all add: characterData_def ember_form_def ember_def trim_def isWhiteSpace_def
         validateCharacterData_def empty_page_def)
  show ?thesis
    unfolding s1 s2
    by (simp add: addCharacter_characters) (simp add: ember_form_def ember_def empty_page_def)
qed

text \<open>
  The same handler on the form of the first variant after an image has been selected:
  the listener of the selection has disabled the custom address, the field is missing
  from the form data, \<^verbatim>\<open>.trim()\<close> throws and nothing is appended.
\<close>

lemma handleFormSubmit_without_custom_address:
  "handleFormSubmit table_json empty_page (ember_form\<lparr>f_customImageUrl := None\<rparr>) 1
       ''2025-01-01T00:00:00.000Z'' = Inl TypeError"
  by (simp add: handleFormSubmit_def characterData_def ember_form_def)

text \<open>
  C1, amended.  A submission whose fields are present and whose values, as the handler
  reads them, pass the validation appends exactly one Character, so the length grows by
  one: its type is the submitted type, its name and description are the submitted ones
  without the white space around them, and its imageUrl is the custom address without the
  white space around it or else the selected image (first variant), the selected file
  under \<^verbatim>\<open>assets/images/\<close> (second variant).  A submission whose name, so read, equals
  without regard to case the name of a Character of the array is rejected with a
  validation message, and the array and the store stay as they were.
\<close>

theorem submit_appends_normalized_rejects_duplicate:
  fixes p :: "'a page_scheme"
  shows
  "(f_type form = Some t \<and> f_name form = Some n \<and> f_description form = Some ds \<and>
    f_customImageUrl form = Some u \<and>
    im = (if trim u \<noteq> [] then trim u else (case f_imageUrl form of None \<Rightarrow> [] | Some i \<Rightarrow> i)) \<and>
    t \<noteq> [] \<and> 2 \<le> length (trim n) \<and> 10 \<le> length (trim ds) \<and> im \<noteq> [] \<and>
    (\<forall>c \<in> set (characters p). toLowerCase (name c) \<noteq> toLowerCase (trim n)) \<longrightarrow>
      (\<exists>p'. handleFormSubmit J p form now date = Inr p' \<and>
            characters p' = characters p @
              [\<lparr>cid = now, ctype = t, name = trim n, description = trim ds, imageUrl = im,
                bag = Some [], createdAt = date\<rparr>] \<and>
            length (characters p') = length (characters p) + 1)) \<and>
   (f_type form = Some t \<and> f_name form = Some n \<and> f_description form = Some ds \<and>
    imageFile = trim (case f_imageUrl form of None \<Rightarrow> [] | Some i \<Rightarrow> i) \<and>
    t \<noteq> [] \<and> 2 \<le> length (trim n) \<and> 5 \<le> length (trim ds) \<and> imageFile \<noteq> [] \<and>
    (\<forall>c \<in> set (characters p). toLowerCase (name c) \<noteq> toLowerCase (trim n)) \<longrightarrow>
      (\<exists>p'. handleFormSubmit2 J p form now date = Inr p' \<and>
            characters p' = characters p @
              [\<lparr>cid = now, ctype = t, name = trim n, description = trim ds,
                imageUrl = ''assets/images/'' @ imageFile, bag = Some [], createdAt = date\<rparr>] \<and>
            length (characters p') = length (characters p) + 1)) \<and>
   (f_name form = Some n \<and> f_description form = Some ds \<and> f_customImageUrl form = Some u \<and>
    (\<exists>c \<in> set (characters p). toLowerCase (name c) = toLowerCase (trim n)) \<longrightarrow>
      (\<exists>p'. handleFormSubmit J p form now date = Inr p' \<and>
            characters p' = characters p \<and> localStorage p' = localStorage p \<and>
            message p' \<in> Some ` {SelectCharacterType, CharacterNameTooShort,
              DescriptionTooShort 10, SelectImage, CharacterNameExists})) \<and>
   (f_name form = Some n \<and> f_description form = Some ds \<and>
    (\<exists>c \<in> set (characters p). toLowerCase (name c) = toLowerCase (trim n)) \<longrightarrow>
      (\<exists>p'. handleFormSubmit2 J p form now date = Inr p' \<and>
            characters p' = characters p \<and> localStorage p' = localStorage p \<and>
            message p' \<in> Some ` {SelectCharacterType, CharacterNameTooShort,
              DescriptionTooShort 5, SelectImage, CharacterNameExists}))"
proof (intro conjI impI)
  assume a: "f_type form = Some t \<and> f_name form = Some n \<and> f_description form = Some ds \<and>
    f_customImageUrl form = Some u \<and>
    im = (if trim u \<noteq> [] then trim u else (case f_imageUrl form of None \<Rightarrow> [] | Some i \<Rightarrow> i)) \<and>
    t \<noteq> [] \<and> 2 \<le> length (trim n) \<and> 10 \<le> length (trim ds) \<and> im \<noteq> [] \<and>
    (\<forall>c \<in> set (characters p). toLowerCase (name c) \<noteq> toLowerCase (trim n))"
  let ?c = "\<lparr>cid = now, ctype = t, name = trim n, description = trim ds, imageUrl = im,
             bag = Some [], createdAt = date\<rparr>"
  from a have c: "characterData form now date = Inr ?c"
    by (simp add: characterData_def)
  from a have v: "fst (validateCharacterData 10 p ?c)"
    by (auto simp: validateCharacterData_def list_ex_iff)
  from handleFormSubmit_accept [OF c v, of J]
  show "\<exists>p'. handleFormSubmit J p form now date = Inr p' \<and>
            characters p' = characters p @ [?c] \<and>
            length (characters p') = length (characters p) + 1"
    by (simp add: addCharacter_characters)
next
  assume a: "f_type form = Some t \<and> f_name form = Some n \<and> f_description form = Some ds \<and>
    imageFile = trim (case f_imageUrl form of None \<Rightarrow> [] | Some i \<Rightarrow> i) \<and>
    t \<noteq> [] \<and> 2 \<le> length (trim n) \<and> 5 \<le> length (trim ds) \<and> imageFile \<noteq> [] \<and>
    (\<forall>c \<in> set (characters p). toLowerCase (name c) \<noteq> toLowerCase (trim n))"
  let ?c = "\<lparr>cid = now, ctype = t, name = trim n, description = trim ds,
             imageUrl = ''assets/images/'' @ imageFile, bag = Some [], createdAt = date\<rparr>"
  from a have f: "trim (case f_imageUrl form of None \<Rightarrow> [] | Some i \<Rightarrow> i) = imageFile" "imageFile \<noteq> []"
    by blast+
  from a have c: "characterData2 form now date = Inr ?c"
    unfolding characterData2_def Let_def f by (simp add: f(2))
  from a have v: "fst (validateCharacterData 5 p ?c)"
    by (auto simp: validateCharacterData_def list_ex_iff)
  from handleFormSubmit2_accept [OF c v, of J]
  show "\<exists>p'. handleFormSubmit2 J p form now date = Inr p' \<and>
            characters p' = characters p @ [?c] \<and>
            length (characters p') = length (characters p) + 1"
    by (simp add: addCharacter_characters)
next
  assume a: "f_name form = Some n \<and> f_description form = Some ds \<and>
    f_customImageUrl form = Some u \<and>
    (\<exists>c \<in> set (characters p). toLowerCase (name c) = toLowerCase (trim n))"
  then obtain data where c: "characterData form now date = Inr data" and n: "name data = trim n"
    by (simp add: characterData_def)
  from a n have dup: "list_ex (\<lambda>c. toLowerCase (name c) = toLowerCase (name data)) (characters p)"
    by (simp add: list_ex_iff)
  from validate_duplicate_rejected [OF dup]
  have r: "\<not> fst (validateCharacterData 10 p data)" .
  from handleFormSubmit_reject [OF c r, of J] validate_rejection_message [OF r]
  show "\<exists>p'. handleFormSubmit J p form now date = Inr p' \<and>
            characters p' = characters p \<and> localStorage p' = localStorage p \<and>
            message p' \<in> Some ` {SelectCharacterType, CharacterNameTooShort,
              DescriptionTooShort 10, SelectImage, CharacterNameExists}"
    by (simp add: validate_keeps)
next
  assume a: "f_name form = Some n \<and> f_description form = Some ds \<and>
    (\<exists>c \<in> set (characters p). toLowerCase (name c) = toLowerCase (trim n))"
  then obtain data where c: "characterData2 form now date = Inr data" and n: "name data = trim n"
    by (simp add: characterData2_def Let_def)
  from a n have dup: "list_ex (\<lambda>c. toLowerCase (name c) = toLowerCase (name data)) (characters p)"
    by (simp add: list_ex_iff)
  from validate_duplicate_rejected [OF dup]
  have r: "\<not> fst (validateCharacterData 5 p data)" .
  from handleFormSubmit2_reject [OF c r, of J] validate_rejection_message [OF r]
  show "\<exists>p'. handleFormSubmit2 J p form now date = Inr p' \<and>
            characters p' = characters p \<and> localStorage p' = localStorage p \<and>
            message p' \<in> Some ` {SelectCharacterType, CharacterNameTooShort,
              DescriptionTooShort 5, SelectImage, CharacterNameExists}"
    by (simp add: validate_keeps)
qed

theorem submit_appends_normalized_rejects_duplicate_witness:
  "f_name (ember_form\<lparr>f_name := Some '' Ember ''\<rparr>) = Some '' Ember '' \<and>
   trim '' Ember '' = ''Ember'' \<and>
   (\<exists>p'. handleFormSubmit table_json empty_page (ember_form\<lparr>f_name := Some '' Ember ''\<rparr>) 1
           ''2025-01-01T00:00:00.000Z'' = Inr p' \<and>
         characters p' = [ember] \<and> length (characters p') = 1) \<and>
   (\<exists>p'. handleFormSubmit2 table_json empty_page ember_form 1 ''2025-01-01T00:00:00.000Z'' = Inr p' \<and>
         characters p' = [ember\<lparr>imageUrl := ''assets/images/dragon1.png''\<rparr>] \<and>
         length (characters p') = 1) \<and>
   (\<exists>c \<in> set (characters (empty_page\<lparr>characters := [ember]\<rparr>)).
      toLowerCase (name c) = toLowerCase (trim ''ember'')) \<and>
   (\<exists>p'. handleFormSubmit table_json (empty_page\<lparr>characters := [ember]\<rparr>)
           (ember_form\<lparr>f_name := Some ''ember''\<rparr>) 2 ''2025-01-02T00:00:00.000Z'' = Inr p' \<and>
         characters p' = [ember] \<and> localStorage p' = None) \<and>
   (\<exists>p'. handleFormSubmit2 table_json (empty_page\<lparr>characters := [ember]\<rparr>)
           (ember_form\<lparr>f_name := Some ''ember''\<rparr>) 2 ''2025-01-02T00:00:00.000Z'' = Inr p' \<and>
         characters p' = [ember] \<and> localStorage p' = None)"
proof -
  let ?d = "''2025-01-01T00:00:00.000Z''" and ?e = "''2025-01-02T00:00:00.000Z''"
  let ?p = "empty_page\<lparr>characters := [ember]\<rparr>"
  let ?f = "ember_form\<lparr>f_name := Some ''ember''\<rparr>"
  let ?g = "ember_form\<lparr>f_name := Some '' Ember ''\<rparr>"
  let ?desc = "''A fierce red dragon''"
  note T = submit_appends_normalized_rejects_duplicate
  have t: "trim '' Ember '' = ''Ember''" "trim ''Ember'' = ''Ember''" "trim ''ember'' = ''ember''"
      "trim ?desc = ?desc" "trim [] = []" "trim ''dragon1.png'' = ''dragon1.png''"
    by (simp_all add: trim_def isWhiteSpace_def)
  have low: "toLowerCase ''Ember'' = toLowerCase ''ember''"
    by (simp add: toLowerCase_def toLowerCase_unit_def char_of_def bit_Suc_0_iff)
  have e0: "characters empty_page = []" "localStorage ?p = None" "characters ?p = [ember]"
    by (simp_all add: empty_page_def)
  have e1: "\<lparr>cid = 1, ctype = ''Dragon'', name = ''Ember'', description = ?desc,
             imageUrl = ''dragon1.png'', bag = Some [], createdAt = ?d\<rparr> = ember"
    by (simp add: ember_def)
  have e2: "\<lparr>cid = 1, ctype = ''Dragon'', name = ''Ember'', description = ?desc,
             imageUrl = ''assets/images/dragon1.png'', bag = Some [], createdAt = ?d\<rparr>
            = ember\<lparr>imageUrl := ''assets/images/dragon1.png''\<rparr>"
    by (simp add: ember_def)
  have h1: "f_type ?g = Some ''Dragon'' \<and> f_name ?g = Some '' Ember '' \<and>
      f_description ?g = Some ?desc \<and> f_customImageUrl ?g = Some [] \<and>
      ''dragon1.png'' = (if trim [] \<noteq> [] then trim []
                          else (case f_imageUrl ?g of None \<Rightarrow> [] | Some i \<Rightarrow> i)) \<and>
      ''Dragon'' \<noteq> [] \<and> 2 \<le> length (trim '' Ember '') \<and> 10 \<le> length (trim ?desc) \<and>
      ''dragon1.png'' \<noteq> [] \<and>
      (\<forall>c \<in> set (characters empty_page). toLowerCase (name c) \<noteq> toLowerCase (trim '' Ember ''))"
    by (simp add: t e0 ember_form_def)
  have h2: "f_type ember_form = Some ''Dragon'' \<and> f_name ember_form = Some ''Ember'' \<and>
      f_description ember_form = Some ?desc \<and>
      ''dragon1.png'' = trim (case f_imageUrl ember_form of None \<Rightarrow> [] | Some i \<Rightarrow> i) \<and>
      ''Dragon'' \<noteq> [] \<and> 2 \<le> length (trim ''Ember'') \<and> 5 \<le> length (trim ?desc) \<and>
      ''dragon1.png'' \<noteq> [] \<and>
      (\<forall>c \<in> set (characters empty_page). toLowerCase (name c) \<noteq> toLowerCase (trim ''Ember''))"
    by (simp add: t e0 ember_form_def)
  have d: "\<exists>c \<in> set (characters ?p). toLowerCase (name c) = toLowerCase (trim ''ember'')"
    using low by (simp add: t empty_page_def ember_def)
  have h3: "f_name ?f = Some ''ember'' \<and> f_description ?f = Some ?desc \<and>
      f_customImageUrl ?f = Some [] \<and>
      (\<exists>c \<in> set (characters ?p). toLowerCase (name c) = toLowerCase (trim ''ember''))"
    using d by (simp add: ember_form_def)
  have h4: "f_name ?f = Some ''ember'' \<and> f_description ?f = Some ?desc \<and>
      (\<exists>c \<in> set (characters ?p). toLowerCase (name c) = toLowerCase (trim ''ember''))"
    using d by (simp add: ember_form_def)
  from T [where form = ?g and t = "''Dragon''" and n = "'' Ember ''" and ds = ?desc and u = "[]"
            and im = "''dragon1.png''" and imageFile = "[]" and p = empty_page and J = table_json
            and now = 1 and date = ?d] h1
  have r1: "\<exists>p'. handleFormSubmit table_json empty_page ?g 1 ?d = Inr p' \<and>
         characters p' = characters empty_page @
           [\<lparr>cid = 1, ctype = ''Dragon'', name = trim '' Ember '', description = trim ?desc,
             imageUrl = ''dragon1.png'', bag = Some [], createdAt = ?d\<rparr>] \<and>
         length (characters p') = length (characters empty_page) + 1"
    by blast
  from T [where form = ember_form and t = "''Dragon''" and n = "''Ember''" and ds = ?desc
            and u = "[]" and im = "[]" and imageFile = "''dragon1.png''" and p = empty_page
            and J = table_json and now = 1 and date = ?d] h2
  have r2: "\<exists>p'. handleFormSubmit2 table_json empty_page ember_form 1 ?d = Inr p' \<and>
         characters p' = characters empty_page @
           [\<lparr>cid = 1, ctype = ''Dragon'', name = trim ''Ember'', description = trim ?desc,
             imageUrl = ''assets/images/'' @ ''dragon1.png'', bag = Some [], createdAt = ?d\<rparr>] \<and>
         length (characters p') = length (characters empty_page) + 1"
    by blast
  from T [where form = ?f and t = "[]" and n = "''ember''" and ds = ?desc and u = "[]"
            and im = "[]" and imageFile = "[]" and p = ?p and J = table_json and now = 2
            and date = ?e] h3
  have r3: "\<exists>p'. handleFormSubmit table_json ?p ?f 2 ?e = Inr p' \<and>
         characters p' = characters ?p \<and> localStorage p' = localStorage ?p"
    by blast
  from T [where form = ?f and t = "[]" and n = "''ember''" and ds = ?desc and u = "[]"
            and im = "[]" and imageFile = "[]" and p = ?p and J = table_json and now = 2
            and date = ?e] h4
  have r4: "\<exists>p'. handleFormSubmit2 table_json ?p ?f 2 ?e = Inr p' \<and>
         characters p' = characters ?p \<and> localStorage p' = localStorage ?p"
    by blast
  have g0: "f_name ?g = Some '' Ember ''"
    by simp
  from r1 have g1: "\<exists>p'. handleFormSubmit table_json empty_page ?g 1 ?d = Inr p' \<and>
         characters p' = [ember] \<and> length (characters p') = 1"
    unfolding t e0 e1 by simp
  from r2 have g2: "\<exists>p'. handleFormSubmit2 table_json empty_page ember_form 1 ?d = Inr p' \<and>
         characters p' = [ember\<lparr>imageUrl := ''assets/images/dragon1.png''\<rparr>] \<and>
         length (characters p') = 1"
    unfolding t e0 by (simp add: e2)
  from r3 have g3: "\<exists>p'. handleFormSubmit table_json ?p ?f 2 ?e = Inr p' \<and>
         characters p' = [ember] \<and> localStorage p' = None"
    unfolding e0 .
  from r4 have g4: "\<exists>p'. handleFormSubmit2 table_json ?p ?f 2 ?e = Inr p' \<and>
         characters p' = [ember] \<and> localStorage p' = None"
    unfolding e0 .
  from g0 t(1) g1 g2 d g3 g4 show ?thesis
    by blast
qed

text \<open>
  C2, as stated, fails: the uniqueness of the name is not checked together with its
  length.  With "Ember" in the array, a candidate named "ember" whose description has
  three characters gets the message about the description, in both variants.
\<close>

theorem validation_order_counterexample:
  "toLowerCase (name ember) = toLowerCase ''ember'' \<and>
   ember \<in> set (characters (empty_page\<lparr>characters := [ember]\<rparr>)) \<and>
   length ''abc'' < (5::nat) \<and>
   validateCharacterData 10 (empty_page\<lparr>characters := [ember]\<rparr>)
       (ember\<lparr>cid := 2, name := ''ember'', description := ''abc''\<rparr>)
     = (False, showMessage (DescriptionTooShort 10) (empty_page\<lparr>characters := [ember]\<rparr>)) \<and>
   validateCharacterData 5 (empty_page\<lparr>characters := [ember]\<rparr>)
       (ember\<lparr>cid := 2, name := ''ember'', description := ''abc''\<rparr>)
     = (False, showMessage (DescriptionTooShort 5) (empty_page\<lparr>characters := [ember]\<rparr>)) \<and>
   DescriptionTooShort 10 \<noteq> CharacterNameExists \<and> DescriptionTooShort 5 \<noteq> CharacterNameExists"
  by (simp add: validateCharacterData_def ember_def empty_page_def toLowerCase_def
      toLowerCase_unit_def char_of_def bit_Suc_0_iff)

text \<open>
  C2, amended.  The rules are checked in this order and the first that fails gives the
  message: the type is not empty; the name has at least 2 characters; the description is
  not empty and has at least the minimum (10 or 5) of characters; the image reference is
  not empty; the name is, without regard to case, not the name of a Character of the
  array.  So a candidate with a duplicate name and a description that is too short gets
  the message about the description.
\<close>

theorem validation_first_failing_rule:
  fixes p :: "'a page_scheme"
  shows
  "(ctype d = [] \<longrightarrow>
      validateCharacterData m p d = (False, showMessage SelectCharacterType p)) \<and>
   (ctype d \<noteq> [] \<and> length (name d) < 2 \<longrightarrow>
      validateCharacterData m p d = (False, showMessage CharacterNameTooShort p)) \<and>
   (ctype d \<noteq> [] \<and> 2 \<le> length (name d) \<and>
    (description d = [] \<or> length (description d) < m) \<longrightarrow>
      validateCharacterData m p d = (False, showMessage (DescriptionTooShort m) p)) \<and>
   (ctype d \<noteq> [] \<and> 2 \<le> length (name d) \<and>
    description d \<noteq> [] \<and> m \<le> length (description d) \<and> imageUrl d = [] \<longrightarrow>
      validateCharacterData m p d = (False, showMessage SelectImage p)) \<and>
   (ctype d \<noteq> [] \<and> 2 \<le> length (name d) \<and>
    description d \<noteq> [] \<and> m \<le> length (description d) \<and> imageUrl d \<noteq> [] \<and>
    (\<exists>c \<in> set (characters p). toLowerCase (name c) = toLowerCase (name d)) \<longrightarrow>
      validateCharacterData m p d = (False, showMessage CharacterNameExists p)) \<and>
   (ctype d \<noteq> [] \<and> 2 \<le> length (name d) \<and>
    description d \<noteq> [] \<and> m \<le> length (description d) \<and> imageUrl d \<noteq> [] \<and>
    \<not> (\<exists>c \<in> set (characters p). toLowerCase (name c) = toLowerCase (name d)) \<longrightarrow>
      validateCharacterData m p d = (True, p))"
  by (auto simp: validateCharacterData_def list_ex_iff)

theorem validation_first_failing_rule_witness:
  "validateCharacterData 10 (empty_page\<lparr>characters := [ember]\<rparr>)
       (ember\<lparr>name := ''ember''\<rparr>)
     = (False, showMessage CharacterNameExists (empty_page\<lparr>characters := [ember]\<rparr>)) \<and>
   validateCharacterData 10 (empty_page\<lparr>characters := [ember]\<rparr>)
       (ember\<lparr>name := ''ember'', description := ''abc''\<rparr>)
     = (False, showMessage (DescriptionTooShort 10) (empty_page\<lparr>characters := [ember]\<rparr>)) \<and>
   validateCharacterData 5 (empty_page\<lparr>characters := [ember]\<rparr>)
       (ember\<lparr>name := ''ember'', imageUrl := []\<rparr>)
     = (False, showMessage SelectImage (empty_page\<lparr>characters := [ember]\<rparr>)) \<and>
   validateCharacterData 5 empty_page (ember\<lparr>name := ''E''\<rparr>)
     = (False, showMessage CharacterNameTooShort empty_page) \<and>
   validateCharacterData 5 empty_page (ember\<lparr>ctype := []\<rparr>)
     = (False, showMessage SelectCharacterType empty_page) \<and>
   validateCharacterData 10 empty_page ember = (True, empty_page)"
proof -
  let ?p = "empty_page\<lparr>characters := [ember]\<rparr>"
  have low: "toLowerCase ''Ember'' = toLowerCase ''ember''"
    by (simp add: toLowerCase_def toLowerCase_unit_def char_of_def bit_Suc_0_iff)
  note T = validation_first_failing_rule
  have "validateCharacterData 10 ?p (ember\<lparr>name := ''ember''\<rparr>)
          = (False, showMessage CharacterNameExists ?p)"
    using T [of "ember\<lparr>name := ''ember''\<rparr>" 10 ?p] low by (simp add: ember_def)
  moreover have "validateCharacterData 10 ?p (ember\<lparr>name := ''ember'', description := ''abc''\<rparr>)
          = (False, showMessage (DescriptionTooShort 10) ?p)"
    using T [of "ember\<lparr>name := ''ember'', description := ''abc''\<rparr>" 10 ?p]
    by (simp add: ember_def)
  moreover have "validateCharacterData 5 ?p (ember\<lparr>name := ''ember'', imageUrl := []\<rparr>)
          = (False, showMessage SelectImage ?p)"
    using T [of "ember\<lparr>name := ''ember'', imageUrl := []\<rparr>" 5 ?p] by (simp add: ember_def)
  moreover have "validateCharacterData 5 empty_page (ember\<lparr>name := ''E''\<rparr>)
          = (False, showMessage CharacterNameTooShort empty_page)"
    using T [of "ember\<lparr>name := ''E''\<rparr>" 5 empty_page] by (simp add: ember_def)
  moreover have "validateCharacterData 5 empty_page (ember\<lparr>ctype := []\<rparr>)
          = (False, showMessage SelectCharacterType empty_page)"
    using T [of "ember\<lparr>ctype := []\<rparr>" 5 empty_page] by (simp add: ember_def)
  moreover have "validateCharacterData 10 empty_page ember = (True, empty_page)"
    using T [of ember 10 empty_page] by (simp add: ember_def empty_page_def)
  ultimately show ?thesis by blast
qed


section \<open>Properties of the store\<close>


lemma load_depends_on_slot:
  "localStorage p = localStorage q \<Longrightarrow> fst (loadCharacters J p) = fst (loadCharacters J q)"
  by (auto simp: loadCharacters_def split: option.splits)

lemma detail_load_as_gallery:
  "detail_loadCharacters J d =
     (case fst (loadCharacters J d) of
        Characters cs \<Rightarrow> Inr ((snd (loadCharacters J d))\<lparr>characters := cs\<rparr>)
      | Foreign v \<Rightarrow> Inl v)"
  by (auto simp: loadCharacters_def detail_loadCharacters_def split: option.splits parsed.splits)

text \<open>
  C6.  \<open>loadCharacters\<close>, on both pages, for every state of the slot: with the slot
  absent, or holding the empty string, the array is empty; with a text that
  \<^verbatim>\<open>JSON.parse\<close> reads, the value is what it reads, an array of Characters or not;
  with a text on which the parse throws, the exception is caught and logged and the
  array is empty.  The function returns in every case, the constructor goes on with the
  value it returned, and the slot is as it was.
\<close>

theorem load_persisted_or_empty:
  fixes p :: "'a page_scheme" and d :: detail
  shows
  "(localStorage p = None \<longrightarrow> loadCharacters J p = (Characters [], p)) \<and>
   (localStorage p = Some [] \<longrightarrow> loadCharacters J p = (Characters [], p)) \<and>
   (localStorage p = Some s \<and> s \<noteq> [] \<and> JSON_parse J s = Some v \<longrightarrow>
      loadCharacters J p = (v, p)) \<and>
   (localStorage p = Some s \<and> s \<noteq> [] \<and> JSON_parse J s = None \<longrightarrow>
      loadCharacters J p = (Characters [], console_error ErrorLoadingCharacters p)) \<and>
   localStorage (snd (loadCharacters J p)) = localStorage p \<and>
   (fst (loadCharacters J p) = Characters cs \<longrightarrow>
      CharacterManager J p = Inr ((snd (loadCharacters J p))\<lparr>characters := cs\<rparr>)) \<and>
   (fst (loadCharacters J p) = Foreign w \<longrightarrow> CharacterManager J p = Inl w) \<and>
   (localStorage d = None \<longrightarrow> detail_loadCharacters J d = Inr (d\<lparr>characters := []\<rparr>)) \<and>
   (localStorage d = Some [] \<longrightarrow> detail_loadCharacters J d = Inr (d\<lparr>characters := []\<rparr>)) \<and>
   (localStorage d = Some s \<and> s \<noteq> [] \<and> JSON_parse J s = Some (Characters cs) \<longrightarrow>
      detail_loadCharacters J d = Inr (d\<lparr>characters := cs\<rparr>)) \<and>
   (localStorage d = Some s \<and> s \<noteq> [] \<and> JSON_parse J s = Some (Foreign w) \<longrightarrow>
      detail_loadCharacters J d = Inl w) \<and>
   (localStorage d = Some s \<and> s \<noteq> [] \<and> JSON_parse J s = None \<longrightarrow>
      detail_loadCharacters J d
        = Inr ((console_error ErrorLoadingCharacters d)\<lparr>characters := []\<rparr>)) \<and>
   (\<forall>d'. detail_loadCharacters J d = Inr d' \<longrightarrow> localStorage d' = localStorage d)"
  by (auto simp: loadCharacters_def detail_loadCharacters_def CharacterManager_def
      console_error_def split: option.splits prod.splits parsed.splits if_splits)


theorem load_persisted_or_empty_witness:
  "loadCharacters table_json empty_page = (Characters [], empty_page) \<and>
   loadCharacters table_json (empty_page\<lparr>localStorage := Some []\<rparr>)
     = (Characters [], empty_page\<lparr>localStorage := Some []\<rparr>) \<and>
   JSON_parse table_json ''[Ember]'' = Some (Characters [ember]) \<and>
   loadCharacters table_json (empty_page\<lparr>localStorage := Some ''[Ember]''\<rparr>)
     = (Characters [ember], empty_page\<lparr>localStorage := Some ''[Ember]''\<rparr>) \<and>
   CharacterManager table_json (empty_page\<lparr>localStorage := Some ''[Ember]''\<rparr>)
     = Inr (empty_page\<lparr>localStorage := Some ''[Ember]'', characters := [ember]\<rparr>) \<and>
   JSON_parse table_json ''null'' = Some (Foreign JNull) \<and>
   loadCharacters table_json (empty_page\<lparr>localStorage := Some ''null''\<rparr>)
     = (Foreign JNull, empty_page\<lparr>localStorage := Some ''null''\<rparr>) \<and>
   CharacterManager table_json (empty_page\<lparr>localStorage := Some ''null''\<rparr>) = Inl JNull \<and>
   JSON_parse table_json ''[{'' = None \<and>
   loadCharacters table_json (empty_page\<lparr>localStorage := Some ''[{''\<rparr>)
     = (Characters [], console_error ErrorLoadingCharacters (empty_page\<lparr>localStorage := Some ''[{''\<rparr>)) \<and>
   detail_loadCharacters table_json empty_detail = Inr (empty_detail\<lparr>characters := []\<rparr>) \<and>
   detail_loadCharacters table_json (empty_detail\<lparr>localStorage := Some []\<rparr>)
     = Inr (empty_detail\<lparr>localStorage := Some [], characters := []\<rparr>) \<and>
   detail_loadCharacters table_json (empty_detail\<lparr>localStorage := Some ''[Ember]''\<rparr>)
     = Inr (empty_detail\<lparr>localStorage := Some ''[Ember]'', characters := [ember]\<rparr>) \<and>
   detail_loadCharacters table_json (empty_detail\<lparr>localStorage := Some ''null''\<rparr>) = Inl JNull \<and>
   detail_loadCharacters table_json (empty_detail\<lparr>localStorage := Some ''[{''\<rparr>)
     = Inr ((console_error ErrorLoadingCharacters (empty_detail\<lparr>localStorage := Some ''[{''\<rparr>))
         \<lparr>characters := []\<rparr>)"
proof -
  let ?p0 = "empty_page\<lparr>localStorage := Some []\<rparr>"
  let ?pe = "empty_page\<lparr>localStorage := Some ''[Ember]''\<rparr>"
  let ?pn = "empty_page\<lparr>localStorage := Some ''null''\<rparr>"
  let ?pb = "empty_page\<lparr>localStorage := Some ''[{''\<rparr>"
  let ?d0 = "empty_detail\<lparr>localStorage := Some []\<rparr>"
  let ?de = "empty_detail\<lparr>localStorage := Some ''[Ember]''\<rparr>"
  let ?dn = "empty_detail\<lparr>localStorage := Some ''null''\<rparr>"
  let ?db = "empty_detail\<lparr>localStorage := Some ''[{''\<rparr>"
  let ?e = "''[Ember]''" and ?n = "''null''" and ?b = "''[{''"
  have p1: "JSON_parse table_json ?e = Some (Characters [ember])"
    and p2: "JSON_parse table_json ?b = None"
    and p3: "JSON_parse table_json ?n = Some (Foreign JNull)"
    by (simp_all add: table_json_def)
  have n: "localStorage empty_page = None" "localStorage empty_detail = None"
    by (simp_all add: empty_page_def empty_detail_def)
  have s0: "localStorage ?p0 = Some []" "localStorage ?d0 = Some []"
    and se: "localStorage ?pe = Some ?e \<and> ?e \<noteq> [] \<and> JSON_parse table_json ?e = Some (Characters [ember])"
      "localStorage ?de = Some ?e \<and> ?e \<noteq> [] \<and> JSON_parse table_json ?e = Some (Characters [ember])"
    and sn: "localStorage ?pn = Some ?n \<and> ?n \<noteq> [] \<and> JSON_parse table_json ?n = Some (Foreign JNull)"
      "localStorage ?dn = Some ?n \<and> ?n \<noteq> [] \<and> JSON_parse table_json ?n = Some (Foreign JNull)"
    and sb: "localStorage ?pb = Some ?b \<and> ?b \<noteq> [] \<and> JSON_parse table_json ?b = None"
      "localStorage ?db = Some ?b \<and> ?b \<noteq> [] \<and> JSON_parse table_json ?b = None"
    using p1 p2 p3 by simp_all
  have g1: "loadCharacters table_json empty_page = (Characters [], empty_page)"
    using load_persisted_or_empty [of empty_page table_json ?e "Characters []" "[]" JNull empty_detail]
      n by blast
  have g2: "loadCharacters table_json ?p0 = (Characters [], ?p0)"
    using load_persisted_or_empty [of ?p0 table_json ?e "Characters []" "[]" JNull empty_detail]
      s0 by blast
  have g3: "loadCharacters table_json ?pe = (Characters [ember], ?pe)"
    using load_persisted_or_empty [of ?pe table_json ?e "Characters [ember]" "[]" JNull empty_detail]
      se by blast
  then have f3: "fst (loadCharacters table_json ?pe) = Characters [ember]" by simp
  have "CharacterManager table_json ?pe
      = Inr ((snd (loadCharacters table_json ?pe))\<lparr>characters := [ember]\<rparr>)"
    using load_persisted_or_empty [of ?pe table_json ?e "Characters [ember]" "[ember]" JNull empty_detail]
      f3 by blast
  then have g4: "CharacterManager table_json ?pe
      = Inr (empty_page\<lparr>localStorage := Some ''[Ember]'', characters := [ember]\<rparr>)"
    unfolding g3 by simp
  have g5: "loadCharacters table_json ?pn = (Foreign JNull, ?pn)"
    using load_persisted_or_empty [of ?pn table_json ?n "Foreign JNull" "[]" JNull empty_detail]
      sn by blast
  then have f5: "fst (loadCharacters table_json ?pn) = Foreign JNull" by simp
  have g6: "CharacterManager table_json ?pn = Inl JNull"
    using load_persisted_or_empty [of ?pn table_json ?n "Foreign JNull" "[]" JNull empty_detail]
      f5 by blast
  have g7: "loadCharacters table_json ?pb = (Characters [], console_error ErrorLoadingCharacters ?pb)"
    using load_persisted_or_empty [of ?pb table_json ?b "Characters []" "[]" JNull empty_detail]
      sb by blast
  have d1: "detail_loadCharacters table_json empty_detail = Inr (empty_detail\<lparr>characters := []\<rparr>)"
    using load_persisted_or_empty [of empty_page table_json ?e "Characters []" "[]" JNull empty_detail]
      n by blast
  have "detail_loadCharacters table_json ?d0 = Inr (?d0\<lparr>characters := []\<rparr>)"
    using load_persisted_or_empty [of empty_page table_json ?e "Characters []" "[]" JNull ?d0]
      s0 by blast
  then have d2: "detail_loadCharacters table_json ?d0
     = Inr (empty_detail\<lparr>localStorage := Some [], characters := []\<rparr>)"
    by simp
  have "detail_loadCharacters table_json ?de = Inr (?de\<lparr>characters := [ember]\<rparr>)"
    using load_persisted_or_empty [of empty_page table_json ?e "Characters []" "[ember]" JNull ?de]
      se by blast
  then have d3: "detail_loadCharacters table_json ?de
     = Inr (empty_detail\<lparr>localStorage := Some ''[Ember]'', characters := [ember]\<rparr>)"
    by simp
  have d4: "detail_loadCharacters table_json ?dn = Inl JNull"
    using load_persisted_or_empty [of empty_page table_json ?n "Characters []" "[]" JNull ?dn]
      sn by blast
  have d5: "detail_loadCharacters table_json ?db
     = Inr ((console_error ErrorLoadingCharacters ?db)\<lparr>characters := []\<rparr>)"
    using load_persisted_or_empty [of empty_page table_json ?b "Characters []" "[]" JNull ?db]
      sb by blast
  from g1 g2 p1 g3 g4 p3 g5 g6 p2 g7 d1 d2 d3 d4 d5 show ?thesis
    by blast
qed


lemma detail_save_fields:
  "characters (detail_saveCharacters J d) = characters d"
  "quota (detail_saveCharacters J d) = quota d"
  "sessionStorage (detail_saveCharacters J d) = sessionStorage d"
  "character (detail_saveCharacters J d) = character d"
  "characterIndex (detail_saveCharacters J d) = characterIndex d"
  "view (detail_saveCharacters J d) = view d"
  "redirect (detail_saveCharacters J d) = redirect d"
  "listening (detail_saveCharacters J d) = listening d"
  "localStorage (detail_saveCharacters J d) =
     (if quota d < length (JSON_stringify J (characters d)) then localStorage d
      else Some (JSON_stringify J (characters d)))"
  by (simp_all add: detail_saveCharacters_def localStorage_setItem_def showMessage_def
      console_error_def)

section \<open>Decimal strings\<close>

text \<open>
  \<open>parseInt\<close> and \<open>Number_integer\<close> read back what \<open>toString\<close> writes.
\<close>

lemma of_char_digit: "d < 10 \<Longrightarrow> (of_char (char_of (48 + d) :: char) :: nat) = 48 + d"
  by simp

lemma digit_of_char_of: "d < 10 \<Longrightarrow> digit_of 10 (char_of (48 + d)) = Some d"
  by (simp add: digit_of_def of_char_digit)

lemma digit_not_space: "digit_of R c \<noteq> None \<Longrightarrow> \<not> isWhiteSpace c"
  by (auto simp: digit_of_def isWhiteSpace_def Let_def split: if_splits)

lemma digit_not_sign: "digit_of R c \<noteq> None \<Longrightarrow> c \<noteq> CHR ''+'' \<and> c \<noteq> CHR ''-'' \<and> c \<noteq> CHR ''x'' \<and> c \<noteq> CHR ''X''"
  by (auto simp: digit_of_def Let_def split: if_splits)

lemma toString_nonempty: "toString n \<noteq> []"
  by (subst toString.simps) simp

lemma toString_digits: "c \<in> set (toString n) \<Longrightarrow> digit_of 10 c \<noteq> None"
proof (induction n arbitrary: c rule: toString.induct)
  case (1 n)
  show ?case
  proof (cases "n < 10")
    case True
    with "1.prems" show ?thesis
      by (subst (asm) toString.simps) (simp add: digit_of_char_of)
  next
    case False
    with "1.prems" have "c \<in> set (toString (n div 10)) \<or> c = char_of (48 + n mod 10)"
      by (subst (asm) toString.simps) auto
    with False "1.IH" show ?thesis
      by (auto simp: digit_of_char_of)
  qed
qed

lemma digits_value_snoc:
  "digits_value R (Z @ [c]) = digits_value R Z * R + the (digit_of R c)"
  by (simp add: digits_value_def)

lemma digits_value_toString: "digits_value 10 (toString n) = n"
proof (induction n rule: toString.induct)
  case (1 n)
  show ?case
  proof (cases "n < 10")
    case True
    then show ?thesis
      by (subst toString.simps) (simp add: digits_value_def digit_of_char_of)
  next
    case False
    with "1.IH" have "digits_value 10 (toString (n div 10)) = n div 10" by simp
    with False show ?thesis
      by (subst toString.simps) (simp add: digits_value_snoc digit_of_char_of)
  qed
qed

lemma dropWhile_none: "(\<And>c. c \<in> set s \<Longrightarrow> \<not> P c) \<Longrightarrow> dropWhile P s = s"
  by (cases s) auto

lemma trim_toString: "trim (toString n) = toString n"
proof -
  have "\<And>c. c \<in> set (toString n) \<Longrightarrow> \<not> isWhiteSpace c"
    using toString_digits digit_not_space by blast
  then have "dropWhile isWhiteSpace (toString n) = toString n"
    and "dropWhile isWhiteSpace (rev (toString n)) = rev (toString n)"
    by (auto intro!: dropWhile_none)
  then show ?thesis
    by (simp add: trim_def)
qed

lemma hd_toString: "hd (toString n) \<noteq> CHR ''+'' \<and> hd (toString n) \<noteq> CHR ''-''"
  using toString_digits [of "hd (toString n)" n] toString_nonempty [of n] digit_not_sign
  by (metis hd_in_set)

lemma Number_integer_toString: "Number_integer (toString n) = Some (int n)"
  using hd_toString [of n] toString_digits [of _ n]
  by (simp add: Number_integer_def trim_toString toString_nonempty digits_value_toString
      list_all_iff del: not_None_eq)

lemma take2_toString: "take 2 (toString n) \<noteq> ''0x'' \<and> take 2 (toString n) \<noteq> ''0X''"
proof -
  { fix u assume "take 2 (toString n) = [CHR ''0'', u]"
    then have "u \<in> set (take 2 (toString n))" by simp
    then have "u \<in> set (toString n)" by (rule in_set_takeD)
    then have "u \<noteq> CHR ''x'' \<and> u \<noteq> CHR ''X''"
      using toString_digits digit_not_sign by blast }
  then show ?thesis by auto
qed

lemma parseInt_toString: "parseInt (toString n) = Some (int n)"
proof -
  have ws: "dropWhile isWhiteSpace (toString n) = toString n"
    using toString_digits digit_not_space by (blast intro: dropWhile_none)
  have tw: "takeWhile (\<lambda>c. digit_of 10 c \<noteq> None) (toString n) = toString n"
    using toString_digits by simp
  show ?thesis
    using hd_toString [of n] take2_toString [of n]
    by (simp add: parseInt_def ws tw toString_nonempty digits_value_toString del: not_None_eq)
qed


section \<open>Properties of the serialization\<close>

text \<open>
  \<open>JSON_parse_text\<close> reads back what \<open>stringify\<close> writes: strings, numbers, and then
  every value whose objects name each key once and no array index, the arrays of
  Characters among them.
\<close>

lemma digit_of_hex_digit: "d < 16 \<Longrightarrow> digit_of 16 (hex_digit d) = Some d"
  by (auto simp: digit_of_def hex_digit_def Let_def)

lemma hex4_00:
  assumes "n < 256"
  shows "hex4 [CHR ''0'', CHR ''0'', hex_digit (n div 16), hex_digit (n mod 16)] = Some n"
proof -
  have a: "n div 16 < 16" "n mod 16 < 16" using assms by auto
  have z: "digit_of 16 CHR ''0'' = Some 0" by (simp add: digit_of_def)
  show ?thesis
    using a by (simp add: hex4_def digits_value_def digit_of_hex_digit z)
qed

lemma unquote_unit:
  "JSONStringCharacters (QuoteJSONString_unit c @ text)
     = map_option (apfst ((#) c)) (JSONStringCharacters text)"
proof -
  obtain n where n: "n = (of_char c :: nat)" by simp
  then have c: "c = char_of n" by simp
  have lt: "n < 256" using n by simp
  consider "n = 0x22" | "n = 0x5C" | "n = 8" | "n = 9" | "n = 10" | "n = 12" | "n = 13"
    | "n < 0x20" "n \<noteq> 8" "n \<noteq> 9" "n \<noteq> 10" "n \<noteq> 12" "n \<noteq> 13"
    | "0x20 \<le> n" "n \<noteq> 0x22" "n \<noteq> 0x5C"
    by linarith
  then show ?thesis
  proof cases
    case 1
    then have "c = CHR 0x22" using c by (simp add: char_of_def bit_Suc_0_iff)
    then show ?thesis by (simp add: QuoteJSONString_unit_def escape_def)
  next
    case 2
    then have "c = CHR 0x5C" using c by (simp add: char_of_def bit_Suc_0_iff)
    then show ?thesis by (simp add: QuoteJSONString_unit_def escape_def)
  next
    case 3
    then have "c = CHR 0x08" using c by (simp add: char_of_def bit_Suc_0_iff)
    then show ?thesis by (simp add: QuoteJSONString_unit_def escape_def)
  next
    case 4
    then have "c = CHR 0x09" using c by (simp add: char_of_def bit_Suc_0_iff)
    then show ?thesis by (simp add: QuoteJSONString_unit_def escape_def)
  next
    case 5
    then have "c = CHR 0x0A" using c by (simp add: char_of_def bit_Suc_0_iff)
    then show ?thesis by (simp add: QuoteJSONString_unit_def escape_def)
  next
    case 6
    then have "c = CHR 0x0C" using c by (simp add: char_of_def bit_Suc_0_iff)
    then show ?thesis by (simp add: QuoteJSONString_unit_def escape_def)
  next
    case 7
    then have "c = CHR 0x0D" using c by (simp add: char_of_def bit_Suc_0_iff)
    then show ?thesis by (simp add: QuoteJSONString_unit_def escape_def)
  next
    case 8
    have q: "QuoteJSONString_unit c
       = [CHR 0x5C, CHR ''u'', CHR ''0'', CHR ''0'', hex_digit (n div 16), hex_digit (n mod 16)]"
      using 8 n by (simp add: QuoteJSONString_unit_def Let_def)
    show ?thesis
      unfolding q using lt c by (simp add: hex4_00)
  next
    case 9
    have q: "QuoteJSONString_unit c = [c]"
      using 9 n by (simp add: QuoteJSONString_unit_def Let_def)
    have "c \<noteq> CHR 0x22" "c \<noteq> CHR 0x5C"
      using 9 n by auto
    then show ?thesis
      unfolding q using 9 n by simp
  qed
qed

lemma unquote_units:
  "JSONStringCharacters (concat (map QuoteJSONString_unit s) @ CHR 0x22 # text) = Some (s, text)"
  by (induction s) (simp_all add: unquote_unit)

lemma JSONValue_string:
  "JSONValue (Suc fuel) (QuoteJSONString s @ text) = Some (JStr s, text)"
  by (simp add: QuoteJSONString_def skip_def JSONWhiteSpace_def unquote_units)

lemma hd_toString_nonzero: "0 < n \<Longrightarrow> hd (toString n) \<noteq> CHR ''0''"
proof (induction n rule: toString.induct)
  case (1 n)
  show ?case
  proof (cases "n < 10")
    case True
    have "(of_char (char_of (48 + n) :: char) :: nat) = 48 + n"
      using True by (rule of_char_digit)
    moreover have "(of_char CHR ''0'' :: nat) = 48" by simp
    ultimately have "char_of (48 + n) \<noteq> CHR ''0''"
      using "1.prems" by (metis add_cancel_right_right less_numeral_extra(3))
    with True show ?thesis
      by (subst toString.simps) simp
  next
    case False
    then have "0 < n div 10" by simp
    with False "1.IH" have "hd (toString (n div 10)) \<noteq> CHR ''0''" by simp
    with False show ?thesis
      by (subst toString.simps) (simp add: toString_nonempty)
  qed
qed

lemma toString_leading:
  "\<not> (1 < length (toString n) \<and> hd (toString n) = CHR ''0'')"
proof (cases "n < 10")
  case True
  then show ?thesis by (subst toString.simps) simp
next
  case False
  then show ?thesis using hd_toString_nonzero [of n] by simp
qed

lemma delimited_no_digit:
  assumes "delimited s"
  shows "takeWhile (\<lambda>c. digit_of 10 c \<noteq> None) (toString n @ s) = toString n"
    and "dropWhile (\<lambda>c. digit_of 10 c \<noteq> None) (toString n @ s) = s"
proof -
  have d: "\<And>c. c \<in> set (toString n) \<Longrightarrow> digit_of 10 c \<noteq> None"
    by (rule toString_digits)
  have s: "s = [] \<or> digit_of 10 (hd s) = None"
    using assms by (auto simp: delimited_def digit_of_def)
  then have t: "takeWhile (\<lambda>c. digit_of 10 c \<noteq> None) s = []"
    and u: "dropWhile (\<lambda>c. digit_of 10 c \<noteq> None) s = s"
    by (cases s; simp)+
  show "takeWhile (\<lambda>c. digit_of 10 c \<noteq> None) (toString n @ s) = toString n"
    using d t by (simp add: takeWhile_append2 del: not_None_eq)
  show "dropWhile (\<lambda>c. digit_of 10 c \<noteq> None) (toString n @ s) = s"
    using d u by (simp add: dropWhile_append2 del: not_None_eq)
qed

lemma JSONNumber_toString:
  assumes "delimited s"
  shows "JSONNumber (Number_toString i @ s) = Some (i, s)"
proof -
  have e: "\<not> (s \<noteq> [] \<and> (hd s = CHR ''.'' \<or> hd s = CHR ''e'' \<or> hd s = CHR ''E''))"
    using assms by (auto simp: delimited_def)
  show ?thesis
  proof (cases "i < 0")
    case True
    then show ?thesis
      using e toString_leading [of "nat (- i)"]
      by (simp add: JSONNumber_def Number_toString_def delimited_no_digit [OF assms]
          toString_nonempty digits_value_toString Let_def del: not_None_eq)
  next
    case False
    have h: "hd (toString (nat i) @ s) \<noteq> CHR ''-''"
      using hd_toString [of "nat i"] by (simp add: toString_nonempty)
    from False show ?thesis
      using e h toString_leading [of "nat i"]
      by (simp add: JSONNumber_def Number_toString_def delimited_no_digit [OF assms]
          toString_nonempty digits_value_toString Let_def del: not_None_eq)
  qed
qed

lemma Number_toString_first:
  "\<exists>c s. Number_toString i = c # s \<and> (c = CHR ''-'' \<or> digit_of 10 c \<noteq> None)"
proof (cases "i < 0")
  case True
  then show ?thesis by (simp add: Number_toString_def)
next
  case False
  obtain c s where cs: "toString (nat i) = c # s"
    using toString_nonempty [of "nat i"] by (cases "toString (nat i)") auto
  then have "digit_of 10 c \<noteq> None"
    using toString_digits [of c "nat i"] by simp
  with False cs show ?thesis by (simp add: Number_toString_def)
qed

lemma JSONValue_number:
  assumes "delimited s"
  shows "JSONValue (Suc fuel) (Number_toString i @ s) = Some (JNum i, s)"
proof -
  obtain c r where cr: "Number_toString i = c # r" and c: "c = CHR ''-'' \<or> digit_of 10 c \<noteq> None"
    using Number_toString_first by blast
  have n: "c \<noteq> CHR ''['' \<and> c \<noteq> CHR ''{'' \<and> c \<noteq> CHR 0x22 \<and> c \<noteq> CHR ''n'' \<and> c \<noteq> CHR ''t'' \<and>
      c \<noteq> CHR ''f'' \<and> \<not> JSONWhiteSpace c"
    using c by (auto simp: digit_of_def JSONWhiteSpace_def Let_def split: if_splits)
  have "JSONNumber (c # r @ s) = Some (i, s)"
    using JSONNumber_toString [OF assms, of i] cr by simp
  with n show ?thesis
    unfolding cr by (simp add: skip_def)
qed

lemma opens_iff:
  "opens s \<longleftrightarrow> (\<exists>c r. s = c # r \<and> \<not> JSONWhiteSpace c \<and> c \<noteq> CHR '']'' \<and> c \<noteq> CHR ''}'')"
  by (cases s) (simp_all add: opens_def)

lemma opens_append: "opens s \<Longrightarrow> opens (s @ t)"
  by (auto simp: opens_iff)

lemma opens_Quote: "opens (QuoteJSONString k)"
  by (simp add: opens_iff QuoteJSONString_def JSONWhiteSpace_def)

lemma opens_stringify: "opens (stringify v)"
proof (cases v)
  case (JNum i)
  obtain c r where "Number_toString i = c # r" "c = CHR ''-'' \<or> digit_of 10 c \<noteq> None"
    using Number_toString_first by blast
  then show ?thesis
    using JNum by (auto simp: opens_iff JSONWhiteSpace_def digit_of_def Let_def split: if_splits)
qed (simp_all add: opens_iff JSONWhiteSpace_def QuoteJSONString_def)

lemma opens_elements: "xs \<noteq> [] \<Longrightarrow> opens (stringify_elements xs)"
  by (cases xs rule: stringify_elements.cases) (simp_all add: opens_stringify opens_append)

lemma skip_opens: "opens s \<Longrightarrow> skip s = s"
  by (auto simp: opens_iff skip_def)

lemma length_stringify: "0 < length (stringify v)"
  using opens_stringify [of v] by (auto simp: opens_iff)

lemma define_plain:
  assumes "distinct (map fst ms)" "list_all (\<lambda>m. array_index (fst m) = None) ms"
    "set (map fst acc) \<inter> set (map fst ms) = {}"
  shows "foldl CreateDataProperty acc ms = acc @ ms"
  using assms
proof (induction ms arbitrary: acc)
  case Nil
  then show ?case by simp
next
  case (Cons m ms)
  have "CreateDataProperty acc m = acc @ [m]"
    using Cons.prems by (auto simp: CreateDataProperty_def)
  moreover have "foldl CreateDataProperty (acc @ [m]) ms = (acc @ [m]) @ ms"
    using Cons.prems by (intro Cons.IH) auto
  ultimately show ?case by simp
qed

lemma JSONValue_literals:
  "JSONValue (Suc fuel) (''null'' @ s) = Some (JNull, s)"
  "JSONValue (Suc fuel) (''true'' @ s) = Some (JBool True, s)"
  "JSONValue (Suc fuel) (''false'' @ s) = Some (JBool False, s)"
  by (simp_all add: skip_def JSONWhiteSpace_def)

lemma JSONValue_array:
  assumes "xs \<noteq> []"
    "JSONElementList fuel (stringify_elements xs @ CHR '']'' # s) = Some (xs, s)"
  shows "JSONValue (Suc fuel) (stringify (JArr xs) @ s) = Some (JArr xs, s)"
proof -
  obtain c r where cr: "stringify_elements xs = c # r" "\<not> JSONWhiteSpace c" "c \<noteq> CHR '']''"
    using opens_elements [OF assms(1)] by (auto simp: opens_iff)
  show ?thesis
    using assms(2) cr by (simp add: skip_def JSONWhiteSpace_def)
qed

lemma JSONValue_array_empty:
  "JSONValue (Suc fuel) (stringify (JArr []) @ s) = Some (JArr [], s)"
  by (simp add: skip_def JSONWhiteSpace_def)

lemma JSONValue_object_empty:
  "JSONValue (Suc fuel) (stringify (JObj []) @ s) = Some (JObj [], s)"
  by (simp add: skip_def JSONWhiteSpace_def)

lemma opens_members: "ms \<noteq> [] \<Longrightarrow> \<exists>r. stringify_members ms = CHR 0x22 # r"
  by (cases ms rule: stringify_members.cases) (simp_all add: QuoteJSONString_def)

lemma JSONValue_object:
  assumes "ms \<noteq> []" "distinct (map fst ms)" "list_all (\<lambda>m. array_index (fst m) = None) ms"
    "JSONMemberList fuel (stringify_members ms @ CHR ''}'' # s) = Some (ms, s)"
  shows "JSONValue (Suc fuel) (stringify (JObj ms) @ s) = Some (JObj ms, s)"
proof -
  obtain r where r: "stringify_members ms = CHR 0x22 # r"
    using opens_members [OF assms(1)] by blast
  have f: "foldl CreateDataProperty [] ms = ms"
    using define_plain [OF assms(2,3), of "[]"] by simp
  show ?thesis
    using assms(4) r f by (simp add: skip_def JSONWhiteSpace_def)
qed

lemma JSONElementList_step:
  assumes "JSONValue fuel (stringify x @ c # s) = Some (x, c # s)"
  shows "c = CHR '']'' \<Longrightarrow> JSONElementList (Suc fuel) (stringify x @ c # s) = Some ([x], s)"
    and "c = CHR '','' \<Longrightarrow> JSONElementList (Suc fuel) (stringify x @ c # s)
           = map_option (apfst ((#) x)) (JSONElementList fuel s)"
  using assms by (simp_all add: skip_def JSONWhiteSpace_def)

lemma JSONMemberList_step:
  assumes "JSONValue fuel (stringify v @ c # s) = Some (v, c # s)"
  shows "c = CHR ''}'' \<Longrightarrow>
           JSONMemberList (Suc fuel) (QuoteJSONString k @ CHR '':'' # stringify v @ c # s)
             = Some ([(k, v)], s)"
    and "c = CHR '','' \<Longrightarrow>
           JSONMemberList (Suc fuel) (QuoteJSONString k @ CHR '':'' # stringify v @ c # s)
             = map_option (apfst ((#) (k, v))) (JSONMemberList fuel s)"
  using assms by (simp_all add: QuoteJSONString_def unquote_units skip_def JSONWhiteSpace_def)

lemma delimited_simps:
  "delimited (CHR '','' # s)" "delimited (CHR '']'' # s)" "delimited (CHR ''}'' # s)" "delimited []"
  by (simp_all add: delimited_def)

lemma parse_stringify:
  "plain v \<Longrightarrow> length (stringify v) \<le> fuel \<Longrightarrow> delimited s \<Longrightarrow>
     JSONValue fuel (stringify v @ s) = Some (v, s)"
  "xs \<noteq> [] \<Longrightarrow> plain_elements xs \<Longrightarrow> length (stringify_elements xs) < fuel \<Longrightarrow>
     JSONElementList fuel (stringify_elements xs @ CHR '']'' # s) = Some (xs, s)"
  "ms \<noteq> [] \<Longrightarrow> plain_members ms \<Longrightarrow> length (stringify_members ms) < fuel \<Longrightarrow>
     JSONMemberList fuel (stringify_members ms @ CHR ''}'' # s) = Some (ms, s)"
proof (induction v and xs and ms arbitrary: fuel s and fuel s and fuel s
    rule: stringify_stringify_elements_stringify_members.induct)
  case 1
  then obtain f where "fuel = Suc f" by (cases fuel) auto
  then show ?case using JSONValue_literals(1) [of f s] by simp
next
  case (2 b)
  then obtain f where "fuel = Suc f" by (cases fuel) (auto split: if_splits)
  then show ?case using JSONValue_literals(2,3) [of f s] by simp
next
  case (3 i)
  then obtain f where "fuel = Suc f"
    using length_stringify [of "JNum i"] by (cases fuel) auto
  with 3 show ?case using JSONValue_number [of s f i] by simp
next
  case (4 t)
  then obtain f where "fuel = Suc f"
    using length_stringify [of "JStr t"] by (cases fuel) auto
  then show ?case using JSONValue_string [of f t s] by simp
next
  case (5 xs)
  then obtain f where f: "fuel = Suc f" by (cases fuel) auto
  show ?case
  proof (cases "xs = []")
    case True
    then show ?thesis using JSONValue_array_empty [of f s] f by simp
  next
    case False
    have "JSONElementList f (stringify_elements xs @ CHR '']'' # s) = Some (xs, s)"
      using 5 f False by (intro "5.IH") auto
    from JSONValue_array [OF False this] f show ?thesis by simp
  qed
next
  case (6 ms)
  then obtain f where f: "fuel = Suc f" by (cases fuel) auto
  show ?case
  proof (cases "ms = []")
    case True
    then show ?thesis using JSONValue_object_empty [of f s] f by simp
  next
    case False
    have "JSONMemberList f (stringify_members ms @ CHR ''}'' # s) = Some (ms, s)"
      using 6 f False by (intro "6.IH") auto
    from JSONValue_object [OF False _ _ this] 6 f show ?thesis by simp
  qed
next
  case 7
  then show ?case by simp
next
  case (8 x)
  then obtain f where f: "fuel = Suc f" by (cases fuel) auto
  have "JSONValue f (stringify x @ CHR '']'' # s) = Some (x, CHR '']'' # s)"
    using 8 f by (intro "8.IH") (auto simp: delimited_simps)
  from JSONElementList_step(1) [OF this] f show ?case by simp
next
  case (9 x y xs)
  then obtain f where f: "fuel = Suc f" by (cases fuel) auto
  let ?r = "stringify_elements (y # xs) @ CHR '']'' # s"
  have "JSONValue f (stringify x @ CHR '','' # ?r) = Some (x, CHR '','' # ?r)"
    using 9 f by (intro "9.IH"(1)) (auto simp: delimited_simps)
  from JSONElementList_step(2) [OF this]
  have a: "JSONElementList (Suc f) (stringify x @ CHR '','' # ?r)
             = map_option (apfst ((#) x)) (JSONElementList f ?r)" by simp
  have "JSONElementList f ?r = Some (y # xs, s)"
    using 9 f by (intro "9.IH"(2)) auto
  with a f show ?case by simp
next
  case 10
  then show ?case by simp
next
  case (11 k v)
  then obtain f where f: "fuel = Suc f" by (cases fuel) auto
  have "JSONValue f (stringify v @ CHR ''}'' # s) = Some (v, CHR ''}'' # s)"
    using 11 f by (intro "11.IH") (auto simp: delimited_simps)
  from JSONMemberList_step(1) [OF this, of k] f show ?case by simp
next
  case (12 k v m ms)
  then obtain f where f: "fuel = Suc f" by (cases fuel) auto
  let ?r = "stringify_members (m # ms) @ CHR ''}'' # s"
  have "JSONValue f (stringify v @ CHR '','' # ?r) = Some (v, CHR '','' # ?r)"
    using 12 f by (intro "12.IH"(1)) (auto simp: delimited_simps)
  from JSONMemberList_step(2) [OF this, of k]
  have a: "JSONMemberList (Suc f) (QuoteJSONString k @ CHR '':'' # stringify v @ CHR '','' # ?r)
             = map_option (apfst ((#) (k, v))) (JSONMemberList f ?r)" by simp
  have "JSONMemberList f ?r = Some (m # ms, s)"
    using 12 f by (intro "12.IH"(2)) auto
  with a f show ?case by simp
qed

lemma JSON_parse_text_stringify:
  "plain v \<Longrightarrow> JSON_parse_text (stringify v) = Some v"
  using parse_stringify(1) [of v "Suc (length (stringify v))" "[]"]
  by (simp add: JSON_parse_text_def delimited_simps skip_def)

lemma not_array_index: "digit_of 10 (hd k) = None \<Longrightarrow> array_index k = None"
  by (cases k) (auto simp: array_index_def)

lemma plain_item: "plain (item_value i)"
  by (simp add: item_value_def not_array_index digit_of_def)

lemma plain_items: "plain_elements (map item_value items)"
  by (induction items) (simp_all add: plain_item)

lemma plain_character: "plain (character_value c)"
  by (cases "bag c") (simp_all add: character_value_def not_array_index digit_of_def plain_items)

lemma plain_characters: "plain_elements (map character_value cs)"
  by (induction cs) (simp_all add: plain_character)

lemma as_item_value: "as_item (item_value i) = Some i"
  by (simp add: as_item_def item_value_def)

lemma as_items: "those (map (as_item \<circ> item_value) items) = Some items"
  by (induction items) (simp_all add: as_item_value)

lemma as_character_value: "as_character (character_value c) = Some c"
  by (cases "bag c") (simp_all add: as_character_def character_value_def as_items)

lemma as_characters_values: "those (map (as_character \<circ> character_value) cs) = Some cs"
  by (induction cs) (simp_all add: as_character_value)

lemma JSON_parse_stringify:
  "JSON_parse JSON (JSON_stringify JSON cs) = Some (Characters cs)"
proof -
  have "JSON_parse_text (stringify (JArr (map character_value cs)))
          = Some (JArr (map character_value cs))"
    by (rule JSON_parse_text_stringify) (simp add: plain_characters)
  then show ?thesis
    by (simp add: JSON_def as_characters_def as_characters_values del: stringify.simps)
qed

lemma JSON_stringify_nonempty: "JSON_stringify JSON cs \<noteq> []"
  by (simp add: JSON_def)

lemma loadCharacters_persisted:
  assumes "localStorage p = None \<and> cs = [] \<or> localStorage p = Some [] \<and> cs = [] \<or>
    (\<exists>text. localStorage p = Some text \<and> JSON_parse JSON text = Some (Characters cs))"
  shows "loadCharacters JSON p = (Characters cs, p)"
proof -
  have "JSON_parse JSON [] = None"
    by (simp add: JSON_def JSON_parse_text_def skip_def)
  with assms show ?thesis
    by (auto simp: loadCharacters_def)
qed

lemma stringify_persisted:
  "\<exists>text. Some (JSON_stringify JSON cs) = Some text \<and>
     JSON_parse JSON text = Some (Characters cs)"
  by (simp add: JSON_parse_stringify)

lemma gallery_round:
  fixes p :: "'a page_scheme"
  assumes "localStorage p = None \<and> cs = [] \<or> localStorage p = Some [] \<and> cs = [] \<or>
    (\<exists>text. localStorage p = Some text \<and> JSON_parse JSON text = Some (Characters cs))"
  shows "CharacterManager JSON p = Inr (p\<lparr>characters := cs\<rparr>)"
    and "localStorage (saveCharacters JSON (p\<lparr>characters := cs\<rparr>))
           = (if quota p < length (JSON_stringify JSON cs) then localStorage p
              else Some (JSON_stringify JSON cs))"
    and "localStorage (saveCharacters JSON (p\<lparr>characters := cs\<rparr>)) = None \<and> cs = [] \<or>
         localStorage (saveCharacters JSON (p\<lparr>characters := cs\<rparr>)) = Some [] \<and> cs = [] \<or>
         (\<exists>text. localStorage (saveCharacters JSON (p\<lparr>characters := cs\<rparr>)) = Some text \<and>
            JSON_parse JSON text = Some (Characters cs))"
proof -
  show "CharacterManager JSON p = Inr (p\<lparr>characters := cs\<rparr>)"
    by (simp add: CharacterManager_def loadCharacters_persisted [OF assms])
  show s: "localStorage (saveCharacters JSON (p\<lparr>characters := cs\<rparr>))
           = (if quota p < length (JSON_stringify JSON cs) then localStorage p
              else Some (JSON_stringify JSON cs))"
    by (simp add: saveCharacters_localStorage)
  show "localStorage (saveCharacters JSON (p\<lparr>characters := cs\<rparr>)) = None \<and> cs = [] \<or>
         localStorage (saveCharacters JSON (p\<lparr>characters := cs\<rparr>)) = Some [] \<and> cs = [] \<or>
         (\<exists>text. localStorage (saveCharacters JSON (p\<lparr>characters := cs\<rparr>)) = Some text \<and>
            JSON_parse JSON text = Some (Characters cs))"
    unfolding s using assms stringify_persisted [of cs] by (cases "quota p < length (JSON_stringify JSON cs)") simp_all
qed

lemma gallery_save_load_idempotent:
  fixes p :: "'a page_scheme"
  assumes "localStorage p = None \<and> cs = [] \<or> localStorage p = Some [] \<and> cs = [] \<or>
    (\<exists>text. localStorage p = Some text \<and> JSON_parse JSON text = Some (Characters cs))"
  shows "\<exists>p1 p2. CharacterManager JSON p = Inr p1 \<and> characters p1 = cs \<and>
           localStorage (saveCharacters JSON p1)
             = (if quota p < length (JSON_stringify JSON cs) then localStorage p
                else Some (JSON_stringify JSON cs)) \<and>
           CharacterManager JSON (saveCharacters JSON p1) = Inr p2 \<and> characters p2 = cs \<and>
           localStorage (saveCharacters JSON p2) = localStorage (saveCharacters JSON p1)"
proof -
  let ?p1 = "p\<lparr>characters := cs\<rparr>"
  let ?q = "saveCharacters JSON ?p1"
  let ?p2 = "?q\<lparr>characters := cs\<rparr>"
  note a = gallery_round [OF assms]
  note b = gallery_round [OF a(3)]
  have q: "quota ?q = quota p" by (simp add: saveCharacters_keeps)
  have "localStorage (saveCharacters JSON ?p2) = localStorage ?q"
    unfolding b(2) q a(2) by simp
  with a(1,2) b(1) show ?thesis by simp
qed

lemma detail_round:
  assumes "localStorage d = None \<and> cs = [] \<or> localStorage d = Some [] \<and> cs = [] \<or>
    (\<exists>text. localStorage d = Some text \<and> JSON_parse JSON text = Some (Characters cs))"
  shows "detail_loadCharacters JSON d = Inr (d\<lparr>characters := cs\<rparr>)"
    and "localStorage (detail_saveCharacters JSON (d\<lparr>characters := cs\<rparr>))
           = (if quota d < length (JSON_stringify JSON cs) then localStorage d
              else Some (JSON_stringify JSON cs))"
    and "localStorage (detail_saveCharacters JSON (d\<lparr>characters := cs\<rparr>)) = None \<and> cs = [] \<or>
         localStorage (detail_saveCharacters JSON (d\<lparr>characters := cs\<rparr>)) = Some [] \<and> cs = [] \<or>
         (\<exists>text. localStorage (detail_saveCharacters JSON (d\<lparr>characters := cs\<rparr>)) = Some text \<and>
            JSON_parse JSON text = Some (Characters cs))"
proof -
  show "detail_loadCharacters JSON d = Inr (d\<lparr>characters := cs\<rparr>)"
    by (simp add: detail_load_as_gallery loadCharacters_persisted [OF assms])
  show s: "localStorage (detail_saveCharacters JSON (d\<lparr>characters := cs\<rparr>))
           = (if quota d < length (JSON_stringify JSON cs) then localStorage d
              else Some (JSON_stringify JSON cs))"
    by (simp add: detail_save_fields)
  show "localStorage (detail_saveCharacters JSON (d\<lparr>characters := cs\<rparr>)) = None \<and> cs = [] \<or>
         localStorage (detail_saveCharacters JSON (d\<lparr>characters := cs\<rparr>)) = Some [] \<and> cs = [] \<or>
         (\<exists>text. localStorage (detail_saveCharacters JSON (d\<lparr>characters := cs\<rparr>)) = Some text \<and>
            JSON_parse JSON text = Some (Characters cs))"
    unfolding s using assms stringify_persisted [of cs] by (cases "quota d < length (JSON_stringify JSON cs)") simp_all
qed

lemma detail_save_load_idempotent:
  assumes "localStorage d = None \<and> cs = [] \<or> localStorage d = Some [] \<and> cs = [] \<or>
    (\<exists>text. localStorage d = Some text \<and> JSON_parse JSON text = Some (Characters cs))"
  shows "\<exists>d1 d2. detail_loadCharacters JSON d = Inr d1 \<and> characters d1 = cs \<and>
           localStorage (detail_saveCharacters JSON d1)
             = (if quota d < length (JSON_stringify JSON cs) then localStorage d
                else Some (JSON_stringify JSON cs)) \<and>
           detail_loadCharacters JSON (detail_saveCharacters JSON d1) = Inr d2 \<and>
           characters d2 = cs \<and>
           localStorage (detail_saveCharacters JSON d2)
             = localStorage (detail_saveCharacters JSON d1)"
proof -
  let ?d1 = "d\<lparr>characters := cs\<rparr>"
  let ?q = "detail_saveCharacters JSON ?d1"
  let ?d2 = "?q\<lparr>characters := cs\<rparr>"
  note a = detail_round [OF assms]
  note b = detail_round [OF a(3)]
  have q: "quota ?q = quota d" by (simp add: detail_save_fields)
  have "localStorage (detail_saveCharacters JSON ?d2) = localStorage ?q"
    unfolding b(2) q a(2) by simp
  with a(1,2) b(1) show ?thesis by simp
qed

text \<open>
  C5.  On both pages, for every state of the slot that holds a collection (the slot
  absent or empty, which is the empty collection, or a text that \<^verbatim>\<open>JSON.parse\<close> reads
  as an array of Characters) with ids that are safe integers: loading the slot and saving
  what was loaded writes the serialization of the loaded array, unless it exceeds the
  quota and the slot stays as it was; loading and saving once more loads the same array
  and leaves the slot byte for byte as the first round left it.  The text that a save
  writes for an array is never empty and parses to this array, so what a save has written
  is such a state.
\<close>

theorem save_load_idempotent:
  fixes p :: "'a page_scheme" and d :: detail
  shows
  "((localStorage p = None \<and> cs = [] \<or> localStorage p = Some [] \<and> cs = [] \<or>
     (\<exists>text. localStorage p = Some text \<and> JSON_parse JSON text = Some (Characters cs))) \<and>
    list_all (\<lambda>c. isSafeInteger (cid c)) cs \<longrightarrow>
      (\<exists>p1 p2. CharacterManager JSON p = Inr p1 \<and> characters p1 = cs \<and>
         localStorage (saveCharacters JSON p1)
           = (if quota p < length (JSON_stringify JSON cs) then localStorage p
              else Some (JSON_stringify JSON cs)) \<and>
         CharacterManager JSON (saveCharacters JSON p1) = Inr p2 \<and> characters p2 = cs \<and>
         localStorage (saveCharacters JSON p2) = localStorage (saveCharacters JSON p1))) \<and>
   ((localStorage d = None \<and> ds = [] \<or> localStorage d = Some [] \<and> ds = [] \<or>
     (\<exists>text. localStorage d = Some text \<and> JSON_parse JSON text = Some (Characters ds))) \<and>
    list_all (\<lambda>c. isSafeInteger (cid c)) ds \<longrightarrow>
      (\<exists>d1 d2. detail_loadCharacters JSON d = Inr d1 \<and> characters d1 = ds \<and>
         localStorage (detail_saveCharacters JSON d1)
           = (if quota d < length (JSON_stringify JSON ds) then localStorage d
              else Some (JSON_stringify JSON ds)) \<and>
         detail_loadCharacters JSON (detail_saveCharacters JSON d1) = Inr d2 \<and>
         characters d2 = ds \<and>
         localStorage (detail_saveCharacters JSON d2)
           = localStorage (detail_saveCharacters JSON d1))) \<and>
   JSON_stringify JSON xs \<noteq> [] \<and>
   JSON_parse JSON (JSON_stringify JSON xs) = Some (Characters xs)"
  using gallery_save_load_idempotent [of p cs] detail_save_load_idempotent [of d ds]
    JSON_parse_stringify [of xs] JSON_stringify_nonempty [of xs]
  by blast

theorem save_load_idempotent_witness:
  "JSON_parse JSON '' [ ] '' = Some (Characters []) \<and>
   (\<exists>p1 p2. CharacterManager JSON (empty_page\<lparr>localStorage := Some '' [ ] ''\<rparr>) = Inr p1 \<and>
      characters p1 = [] \<and>
      localStorage (saveCharacters JSON p1) = Some ''[]'' \<and>
      CharacterManager JSON (saveCharacters JSON p1) = Inr p2 \<and>
      localStorage (saveCharacters JSON p2) = Some ''[]'') \<and>
   JSON_parse JSON (JSON_stringify JSON [ember]) = Some (Characters [ember]) \<and>
   list_all (\<lambda>c. isSafeInteger (cid c)) [ember] \<and>
   (\<exists>d1 d2. detail_loadCharacters JSON
               (empty_detail\<lparr>localStorage := Some (JSON_stringify JSON [ember])\<rparr>) = Inr d1 \<and>
      characters d1 = [ember] \<and>
      localStorage (detail_saveCharacters JSON d1) = Some (JSON_stringify JSON [ember]) \<and>
      detail_loadCharacters JSON (detail_saveCharacters JSON d1) = Inr d2 \<and>
      localStorage (detail_saveCharacters JSON d2) = Some (JSON_stringify JSON [ember]))"
proof -
  let ?p = "empty_page\<lparr>localStorage := Some '' [ ] ''\<rparr>"
  let ?t = "JSON_stringify JSON [ember]"
  let ?d = "empty_detail\<lparr>localStorage := Some ?t\<rparr>"
  note T = save_load_idempotent [where p = ?p and cs = "[]" and d = ?d and ds = "[ember]"
      and xs = "[ember]"]
  have w: "JSON_parse JSON '' [ ] '' = Some (Characters [])"
    by (simp add: JSON_def JSON_parse_text_def skip_def JSONWhiteSpace_def as_characters_def)
  have e: "JSON_stringify JSON [] = ''[]''"
    by (simp add: JSON_def)
  have r: "JSON_parse JSON ?t = Some (Characters [ember])"
    using T by blast
  have s: "list_all (\<lambda>c. isSafeInteger (cid c)) [ember]" "list_all (\<lambda>c. isSafeInteger (cid c)) []"
    by (simp_all add: isSafeInteger_def ember_def)
  have h1: "(localStorage ?p = None \<and> [] = [] \<or> localStorage ?p = Some [] \<and> [] = [] \<or>
     (\<exists>text. localStorage ?p = Some text \<and> JSON_parse JSON text = Some (Characters []))) \<and>
    list_all (\<lambda>c. isSafeInteger (cid c)) []"
    using w by simp
  have h2: "(localStorage ?d = None \<and> [ember] = [] \<or> localStorage ?d = Some [] \<and> [ember] = [] \<or>
     (\<exists>text. localStorage ?d = Some text \<and> JSON_parse JSON text = Some (Characters [ember]))) \<and>
    list_all (\<lambda>c. isSafeInteger (cid c)) [ember]"
    using r s by simp
  have t1: "toString (Suc 0) = ''1''"
    by (subst toString.simps) (simp add: char_of_def bit_Suc_0_iff)
  have l: "length ?t = 150"
    by (simp add: JSON_def ember_def character_value_def QuoteJSONString_def
        QuoteJSONString_unit_def Number_toString_def t1)
  have q: "\<not> quota ?p < length (JSON_stringify JSON [])" "\<not> quota ?d < length ?t"
    unfolding l e by (simp_all add: empty_page_def empty_detail_def)
  from T h1 have c1: "\<exists>p1 p2. CharacterManager JSON ?p = Inr p1 \<and> characters p1 = [] \<and>
         localStorage (saveCharacters JSON p1)
           = (if quota ?p < length (JSON_stringify JSON []) then localStorage ?p
              else Some (JSON_stringify JSON [])) \<and>
         CharacterManager JSON (saveCharacters JSON p1) = Inr p2 \<and> characters p2 = [] \<and>
         localStorage (saveCharacters JSON p2) = localStorage (saveCharacters JSON p1)"
    by blast
  from T h2 have c2: "\<exists>d1 d2. detail_loadCharacters JSON ?d = Inr d1 \<and> characters d1 = [ember] \<and>
         localStorage (detail_saveCharacters JSON d1)
           = (if quota ?d < length ?t then localStorage ?d else Some ?t) \<and>
         detail_loadCharacters JSON (detail_saveCharacters JSON d1) = Inr d2 \<and>
         characters d2 = [ember] \<and>
         localStorage (detail_saveCharacters JSON d2)
           = localStorage (detail_saveCharacters JSON d1)"
    by blast
  from c1 have g1: "\<exists>p1 p2. CharacterManager JSON ?p = Inr p1 \<and> characters p1 = [] \<and>
      localStorage (saveCharacters JSON p1) = Some ''[]'' \<and>
      CharacterManager JSON (saveCharacters JSON p1) = Inr p2 \<and>
      localStorage (saveCharacters JSON p2) = Some ''[]''"
    using q(1) e by auto
  from c2 have g2: "\<exists>d1 d2. detail_loadCharacters JSON ?d = Inr d1 \<and> characters d1 = [ember] \<and>
      localStorage (detail_saveCharacters JSON d1) = Some ?t \<and>
      detail_loadCharacters JSON (detail_saveCharacters JSON d1) = Inr d2 \<and>
      localStorage (detail_saveCharacters JSON d2) = Some ?t"
    using q(2) by auto
  from w g1 r s(1) g2 show ?thesis
    by blast
qed

section \<open>Properties of the delete button\<close>

text \<open>
  C3, as stated, fails.  With three Characters and the second one selected (the slot
  holds "1"), deleting the first leaves the slot as it is: it now designates the
  Character that was third, not the one it was written for.
\<close>

theorem delete_keeps_stale_signal_counterexample:
  "sessionStorage (viewCharacter (empty_page\<lparr>characters := [ember, ash, rook]\<rparr>) 1) = Some ''1'' \<and>
   array_get (characters (viewCharacter (empty_page\<lparr>characters := [ember, ash, rook]\<rparr>) 1))
       (parseInt ''1'') = Some ash \<and>
   sessionStorage (deleteCharacter table_json
       (viewCharacter (empty_page\<lparr>characters := [ember, ash, rook]\<rparr>) 1) 0 True) = Some ''1'' \<and>
   characters (deleteCharacter table_json
       (viewCharacter (empty_page\<lparr>characters := [ember, ash, rook]\<rparr>) 1) 0 True) = [ash, rook] \<and>
   array_get (characters (deleteCharacter table_json
       (viewCharacter (empty_page\<lparr>characters := [ember, ash, rook]\<rparr>) 1) 0 True))
       (parseInt ''1'') = Some rook \<and>
   rook \<noteq> ash"
proof -
  let ?p = "empty_page\<lparr>characters := [ember, ash, rook]\<rparr>"
  have ts: "toString (Suc 0) = ''1''"
    by (simp add: toString.simps char_of_def bit_Suc_0_iff)
  have v: "viewCharacter ?p 1 = ?p\<lparr>sessionStorage := Some ''1'', href := Some ''detail.html''\<rparr>"
    by (simp add: viewCharacter_def sessionStorage_setItem_def ts empty_page_def)
  have n: "Number_integer ''1'' = Some 1"
    by (simp add: Number_integer_def trim_def isWhiteSpace_def digit_of_def digits_value_def)
  have pi: "parseInt ''1'' = Some 1"
    by (simp add: parseInt_def isWhiteSpace_def digit_of_def digits_value_def)
  have d: "sessionStorage (deleteCharacter table_json (viewCharacter ?p 1) 0 True) = Some ''1''"
    "characters (deleteCharacter table_json (viewCharacter ?p 1) 0 True) = [ash, rook]"
    unfolding v
    by (simp_all add: deleteCharacter_def Let_def saveCharacters_keeps showMessage_def n splice1_def)
  have "rook \<noteq> ash" by (simp add: rook_def ash_def)
  then show ?thesis
    unfolding d unfolding v by (simp add: array_get_def pi)
qed


lemma length_splice1: "i < length xs \<Longrightarrow> length (splice1 i xs) = length xs - 1"
  by (simp add: splice1_def)

lemma nth_splice1_after:
  "i \<le> k \<Longrightarrow> Suc k < length xs \<Longrightarrow> splice1 i xs ! k = xs ! Suc k"
  by (simp add: splice1_def nth_append min_def)

lemma deleteCharacter_characters:
  "characters (deleteCharacter J p i True) = splice1 i (characters p)"
  by (simp add: deleteCharacter_def Let_def showMessage_def saveCharacters_keeps
      split: option.splits)

lemma deleteCharacter_signal:
  "sessionStorage (deleteCharacter J p i True) =
     (case sessionStorage p of
        None \<Rightarrow> None
      | Some sel \<Rightarrow>
          (case Number_integer sel of
             None \<Rightarrow> None
           | Some n \<Rightarrow> if int (length (splice1 i (characters p))) \<le> n then None else Some sel))"
  by (simp add: deleteCharacter_def Let_def showMessage_def saveCharacters_keeps
      split: option.splits)

text \<open>
  C3, amended.  A confirmed delete (second variant) removes the element and then clears
  the selection slot exactly when the slot is out of bounds for the shortened array: a
  slot written by \<open>viewCharacter\<close> for the index \<open>k\<close> is removed when \<open>k\<close> is not below the
  new length, and kept otherwise, also when the removal makes it designate the Character
  that followed.  An absent slot stays absent, and a delete that is not confirmed changes
  nothing.
\<close>

theorem delete_clears_out_of_bounds_signal:
  fixes p :: "'a page_scheme"
  shows
  "deleteCharacter J p i False = p \<and>
   characters (deleteCharacter J p i True) = splice1 i (characters p) \<and>
   (sessionStorage p = None \<longrightarrow> sessionStorage (deleteCharacter J p i True) = None) \<and>
   (sessionStorage p = Some (toString k) \<and> i < length (characters p) \<longrightarrow>
      sessionStorage (deleteCharacter J p i True)
        = (if length (characters p) - 1 \<le> k then None else Some (toString k))) \<and>
   (sessionStorage p = Some (toString k) \<and> i \<le> k \<and> k + 1 < length (characters p) \<longrightarrow>
      sessionStorage (deleteCharacter J p i True) = Some (toString k) \<and>
      array_get (characters p) (parseInt (toString k)) = Some (characters p ! k) \<and>
      array_get (characters (deleteCharacter J p i True)) (parseInt (toString k))
        = Some (characters p ! (k + 1)))"
proof (intro conjI impI)
  show "deleteCharacter J p i False = p"
    by (simp add: deleteCharacter_def)
  show "characters (deleteCharacter J p i True) = splice1 i (characters p)"
    by (rule deleteCharacter_characters)
  show "sessionStorage (deleteCharacter J p i True) = None" if "sessionStorage p = None"
    using that by (simp add: deleteCharacter_signal)
  show "sessionStorage (deleteCharacter J p i True)
        = (if length (characters p) - 1 \<le> k then None else Some (toString k))"
    if "sessionStorage p = Some (toString k) \<and> i < length (characters p)"
    using that by (auto simp: deleteCharacter_signal Number_integer_toString length_splice1)
  assume a: "sessionStorage p = Some (toString k) \<and> i \<le> k \<and> k + 1 < length (characters p)"
  then have l: "length (splice1 i (characters p)) = length (characters p) - 1"
    by (simp add: length_splice1)
  from a l show "sessionStorage (deleteCharacter J p i True) = Some (toString k)"
    by (auto simp: deleteCharacter_signal Number_integer_toString)
  from a show "array_get (characters p) (parseInt (toString k)) = Some (characters p ! k)"
    by (simp add: array_get_def parseInt_toString)
  from a l show "array_get (characters (deleteCharacter J p i True)) (parseInt (toString k))
        = Some (characters p ! (k + 1))"
    by (simp add: array_get_def parseInt_toString deleteCharacter_characters nth_splice1_after)
qed

theorem delete_clears_out_of_bounds_signal_witness:
  "sessionStorage (empty_page\<lparr>sessionStorage := Some (toString 1),
       characters := [ember, ash, rook]\<rparr>) = Some (toString 1) \<and>
   (0::nat) < length (characters (empty_page\<lparr>sessionStorage := Some (toString 1),
       characters := [ember, ash, rook]\<rparr>)) \<and> (0::nat) \<le> 1 \<and>
   (1::nat) + 1 < length (characters (empty_page\<lparr>sessionStorage := Some (toString 1),
       characters := [ember, ash, rook]\<rparr>)) \<and>
   sessionStorage (deleteCharacter table_json (empty_page\<lparr>sessionStorage := Some (toString 1),
       characters := [ember, ash, rook]\<rparr>) 0 True) = Some (toString 1) \<and>
   array_get (characters (deleteCharacter table_json (empty_page\<lparr>sessionStorage := Some (toString 1),
       characters := [ember, ash, rook]\<rparr>) 0 True)) (parseInt (toString 1)) = Some rook \<and>
   sessionStorage (empty_page\<lparr>sessionStorage := Some (toString 2),
       characters := [ember, ash, rook]\<rparr>) = Some (toString 2) \<and>
   sessionStorage (deleteCharacter table_json (empty_page\<lparr>sessionStorage := Some (toString 2),
       characters := [ember, ash, rook]\<rparr>) 0 True) = None \<and>
   sessionStorage (deleteCharacter table_json empty_page 0 True) = None"
proof -
  let ?p = "empty_page\<lparr>sessionStorage := Some (toString 1), characters := [ember, ash, rook]\<rparr>"
  let ?q = "empty_page\<lparr>sessionStorage := Some (toString 2), characters := [ember, ash, rook]\<rparr>"
  note T = delete_clears_out_of_bounds_signal
  have e: "sessionStorage empty_page = None" by (simp add: empty_page_def)
  have h: "sessionStorage ?p = Some (toString 1) \<and> (0::nat) \<le> 1 \<and>
      (1::nat) + 1 < length (characters ?p)"
    by simp
  with T [of table_json ?p 0 1]
  have "sessionStorage (deleteCharacter table_json ?p 0 True) = Some (toString 1) \<and>
        array_get (characters (deleteCharacter table_json ?p 0 True)) (parseInt (toString 1))
          = Some (characters ?p ! (1 + 1))"
    by blast
  then have "sessionStorage (deleteCharacter table_json ?p 0 True) = Some (toString 1) \<and>
        array_get (characters (deleteCharacter table_json ?p 0 True)) (parseInt (toString 1))
          = Some rook"
    by simp
  moreover have "sessionStorage (deleteCharacter table_json ?q 0 True) = None"
    using T [of table_json ?q 0 2] by simp
  moreover have "sessionStorage (deleteCharacter table_json empty_page 0 True) = None"
    using T [of table_json empty_page 0 0] e by simp
  ultimately show ?thesis by simp
qed


section \<open>Properties of the detail page\<close>

lemma initializeDetail_no_selection:
  assumes "sessionStorage d = None"
  shows "initializeDetail J d
       = Inr (d\<lparr>characterIndex := None, view := NoCharacterSelected,
                 redirect := Some (''index.html'', 2000)\<rparr>)"
  using assms by (simp add: initializeDetail_def showError_def)

lemma loadCharacters_characterIndex:
  "loadCharacters J (d\<lparr>characterIndex := x\<rparr>)
     = (fst (loadCharacters J d), (snd (loadCharacters J d))\<lparr>characterIndex := x\<rparr>)"
  by (simp add: loadCharacters_def console_error_def split: option.splits)

lemma initializeDetail_characters:
  assumes "sessionStorage d = Some s" "fst (loadCharacters J d) = Characters cs"
  shows "initializeDetail J d =
     Inr (let d2 = (snd (loadCharacters J d))\<lparr>characters := cs, characterIndex := Some s\<rparr>
          in case array_get cs (parseInt s) of
               None \<Rightarrow> d2\<lparr>character := None, view := CharacterNotFound,
                          redirect := Some (''index.html'', 2000)\<rparr>
             | Some x \<Rightarrow> d2\<lparr>character := Some x, view := Ready, listening := True\<rparr>)"
proof -
  have l: "detail_loadCharacters J (d\<lparr>characterIndex := Some s\<rparr>)
      = Inr ((snd (loadCharacters J d))\<lparr>characters := cs, characterIndex := Some s\<rparr>)"
    using assms(2) by (simp add: detail_load_as_gallery loadCharacters_characterIndex)
  show ?thesis
  proof (cases "array_get cs (parseInt s)")
    case None
    with assms(1) show ?thesis
      by (simp add: initializeDetail_def l showError_def)
  next
    case (Some x)
    with assms(1) show ?thesis
      by (simp add: initializeDetail_def l)
  qed
qed

lemma initializeDetail_foreign:
  assumes "sessionStorage d = Some s" "fst (loadCharacters J d) = Foreign v"
  shows "initializeDetail J d = Inl (initializeForeign v s (d\<lparr>characterIndex := Some s\<rparr>))"
proof -
  have l: "detail_loadCharacters J (d\<lparr>characterIndex := Some s\<rparr>) = Inl v"
    using assms(2) by (simp add: detail_load_as_gallery loadCharacters_characterIndex)
  with assms(1) show ?thesis
    by (simp add: initializeDetail_def)
qed


text \<open>
  The \<^verbatim>\<open>catch\<close> of \<open>initializeDetail\<close>: a store that holds \<^verbatim>\<open>null\<close> throws when the
  element is read, an element without an image throws when it is rendered; the page shows
  the error of loading and sets no timer.
\<close>

lemma initializeDetail_catch:
  assumes "sessionStorage d = Some s"
  shows "fst (loadCharacters J d) = Foreign JNull \<Longrightarrow>
           \<exists>F. initializeDetail J d = Inl F \<and> view (rest F) = ErrorLoadingCharacter \<and>
               redirect (rest F) = redirect d \<and> listening (rest F) = listening d \<and>
               console (rest F) = console d @ [ErrorInitializingDetail]"
    and "fst (loadCharacters J d) = Foreign (JArr [JObj []]) \<Longrightarrow> parseInt s = Some 0 \<Longrightarrow>
           \<exists>F. initializeDetail J d = Inl F \<and> view (rest F) = ErrorLoadingCharacter \<and>
               redirect (rest F) = redirect d \<and> listening (rest F) = listening d"
  using assms
  by (simp_all add: initializeDetail_foreign initializeForeign_def showError_def console_error_def
      array_get_def renders_def)








lemma removeItem_missing:
  assumes "character d = Some c" "index < 0 \<or> int (length (bagArray c)) \<le> index"
  shows "removeItem J d index confirmed
       = showMessage ErrorRemovingItem (console_error ErrorRemovingItemLog d)"
  using assms
  by (auto simp: removeItem_def bagArray_def array_get_def split: option.splits)

text \<open>
  C9.  \<open>removeItem\<close> with an index outside the bag of the current Character (negative,
  not below the length, or any index when the bag is missing): reading the item for the
  dialog throws, the \<^verbatim>\<open>catch\<close> logs the exception and shows the error message, and
  the Character, the array, the store and the view are as they were.  The function
  returns, whatever the answer to the dialog would have been.
\<close>

theorem removeItem_out_of_bounds_no_mutation:
  "(character d = Some c \<and> (index < 0 \<or> int (length (bagArray c)) \<le> index) \<longrightarrow>
      removeItem J d index confirmed
        = showMessage ErrorRemovingItem (console_error ErrorRemovingItemLog d) \<and>
      character (removeItem J d index confirmed) = Some c \<and>
      characters (removeItem J d index confirmed) = characters d \<and>
      localStorage (removeItem J d index confirmed) = localStorage d \<and>
      view (removeItem J d index confirmed) = view d \<and>
      message (removeItem J d index confirmed) = Some ErrorRemovingItem \<and>
      console (removeItem J d index confirmed) = console d @ [ErrorRemovingItemLog])"
proof (intro impI)
  assume a: "character d = Some c \<and> (index < 0 \<or> int (length (bagArray c)) \<le> index)"
  then have e: "removeItem J d index confirmed
       = showMessage ErrorRemovingItem (console_error ErrorRemovingItemLog d)"
    by (simp add: removeItem_missing)
  from a show "removeItem J d index confirmed
        = showMessage ErrorRemovingItem (console_error ErrorRemovingItemLog d) \<and>
      character (removeItem J d index confirmed) = Some c \<and>
      characters (removeItem J d index confirmed) = characters d \<and>
      localStorage (removeItem J d index confirmed) = localStorage d \<and>
      view (removeItem J d index confirmed) = view d \<and>
      message (removeItem J d index confirmed) = Some ErrorRemovingItem \<and>
      console (removeItem J d index confirmed) = console d @ [ErrorRemovingItemLog]"
    unfolding e by (simp add: showMessage_def console_error_def)
qed


theorem removeItem_out_of_bounds_no_mutation_witness:
  "character ember_detail = Some ember \<and> int (length (bagArray ember)) \<le> 0 \<and>
   removeItem table_json ember_detail 0 True
     = showMessage ErrorRemovingItem (console_error ErrorRemovingItemLog ember_detail) \<and>
   localStorage (removeItem table_json ember_detail 0 True) = Some ''[Ember]'' \<and>
   characters (removeItem table_json ember_detail 0 True) = [ember] \<and>
   (- 1 :: int) < 0 \<and>
   character (removeItem table_json ember_detail (- 1) True) = Some ember \<and>
   message (removeItem table_json ember_detail (- 1) True) = Some ErrorRemovingItem"
proof -
  note T = removeItem_out_of_bounds_no_mutation
  have c: "character ember_detail = Some ember"
    and f: "localStorage ember_detail = Some ''[Ember]''" "characters ember_detail = [ember]"
    by (simp_all add: ember_detail_def)
  have b: "int (length (bagArray ember)) \<le> 0"
    by (simp add: bagArray_def ember_def)
  from T [of ember_detail ember 0 table_json True] c b
  have "removeItem table_json ember_detail 0 True
     = showMessage ErrorRemovingItem (console_error ErrorRemovingItemLog ember_detail) \<and>
     localStorage (removeItem table_json ember_detail 0 True) = localStorage ember_detail \<and>
     characters (removeItem table_json ember_detail 0 True) = characters ember_detail"
    by blast
  then have r1: "removeItem table_json ember_detail 0 True
     = showMessage ErrorRemovingItem (console_error ErrorRemovingItemLog ember_detail) \<and>
     localStorage (removeItem table_json ember_detail 0 True) = Some ''[Ember]'' \<and>
     characters (removeItem table_json ember_detail 0 True) = [ember]"
    unfolding f .
  have m: "(- 1 :: int) < 0" by simp
  from T [of ember_detail ember "- 1" table_json True] c m
  have r2: "character (removeItem table_json ember_detail (- 1) True) = Some ember \<and>
     message (removeItem table_json ember_detail (- 1) True) = Some ErrorRemovingItem"
    by blast
  from c b r1 r2 m show ?thesis by blast
qed

lemma splice1_last: "splice1 (length xs) (xs @ [x]) = xs"
  by (simp add: splice1_def)

lemma array_get_set:
  "array_get xs n = Some u \<Longrightarrow> array_get (array_set xs n v) n = Some v"
  by (auto simp: array_get_def array_set_def split: option.splits if_splits)

lemma length_array_set: "length (array_set xs n v) = length xs"
  by (simp add: array_set_def split: option.splits)

lemma set_array_set: "set (array_set xs n v) \<subseteq> insert v (set xs)"
  using set_update_subset_insert [of xs _ v]
  by (auto simp: array_set_def split: option.splits)

lemma validateItemData_accepts:
  "validateItemData d it = Inr (True, d') \<Longrightarrow> d' = d"
  by (auto simp: validateItemData_def split: if_splits option.splits)

lemma validateItemData_rejects:
  "validateItemData d it = Inr (False, d') \<Longrightarrow>
     \<exists>m \<in> {SelectItemType, ItemNameTooShort, ItemNameExists}. d' = showMessage m d"
  by (auto simp: validateItemData_def split: if_splits option.splits)

lemma validateItemData_fresh:
  assumes "validateItemData d it = Inr (True, d')" "character d = Some c"
  shows "toLowerCase (iname it) \<notin> (\<lambda>item. toLowerCase (iname item)) ` set (bagArray c)"
  using assms
  by (auto simp: validateItemData_def bagArray_def list_ex_iff split: if_splits option.splits)

lemma validateItemData_duplicate:
  assumes "character d = Some c"
    "\<exists>x \<in> set (bagArray c). toLowerCase (iname x) = toLowerCase (iname it)"
  shows "\<exists>m \<in> {SelectItemType, ItemNameTooShort, ItemNameExists}.
           validateItemData d it = Inr (False, showMessage m d)"
  using assms
  by (auto simp: validateItemData_def bagArray_def list_ex_iff split: if_splits option.splits)

lemma addItemToBag_fields:
  assumes "character d = Some c"
  shows "character (addItemToBag J d it) = Some (c\<lparr>bag := Some (bagArray c @ [it])\<rparr>)"
    and "characters (addItemToBag J d it)
           = array_set (characters d) (parseInt_index (characterIndex d))
               (c\<lparr>bag := Some (bagArray c @ [it])\<rparr>)"
    and "characterIndex (addItemToBag J d it) = characterIndex d"
    and "view (addItemToBag J d it) = view d"
  using assms
  by (simp_all add: addItemToBag_def Let_def showMessage_def detail_save_fields)

lemma removeItem_fields:
  assumes "character d = Some c" "bag c = Some b" "0 \<le> i" "i < int (length b)"
  shows "character (removeItem J d i True) = Some (c\<lparr>bag := Some (splice1 (nat i) b)\<rparr>)"
    and "characters (removeItem J d i True)
           = array_set (characters d) (parseInt_index (characterIndex d))
               (c\<lparr>bag := Some (splice1 (nat i) b)\<rparr>)"
    and "message (removeItem J d i True) = Some (ItemRemoved (iname (b ! nat i)))"
    and "removeItem J d i False = d"
  using assms
  by (simp_all add: removeItem_def array_get_def Let_def showMessage_def detail_save_fields)

lemma handleAddItem_accept:
  assumes "itemData form newId date = Inr it" "validateItemData d it = Inr (True, d)"
  shows "handleAddItem J d form newId date = Inr (addItemToBag J d it)"
  using assms by (simp add: handleAddItem_def)

text \<open>
  C7.  For the current Character and an item that passes the validation: \<open>handleAddItem\<close>
  puts the item at the end of the bag, at the index that is the old length; the confirmed
  \<open>removeItem\<close> at that index gives back the bag with its prior content and length, a
  missing bag as the empty one, and leaves the other fields of the Character alone.  On a
  page whose current Character is the element at the selected index, the element of the
  array is restored in the same way.
\<close>

theorem add_then_remove_restores_bag:
  "(character d = Some c \<and> itemData form newId date = Inr it \<and>
    validateItemData d it = Inr (True, d) \<longrightarrow>
      handleAddItem J d form newId date = Inr (addItemToBag J d it) \<and>
      (\<exists>c1. character (addItemToBag J d it) = Some c1 \<and>
            bagArray c1 = bagArray c @ [it] \<and>
            array_get (bagArray c1) (Some (int (length (bagArray c)))) = Some it) \<and>
      (\<exists>c2. character (removeItem J (addItemToBag J d it) (int (length (bagArray c))) True)
              = Some c2 \<and>
            bagArray c2 = bagArray c \<and> length (bagArray c2) = length (bagArray c) \<and>
            c2 = c\<lparr>bag := Some (bagArray c)\<rparr>) \<and>
      message (removeItem J (addItemToBag J d it) (int (length (bagArray c))) True)
        = Some (ItemRemoved (iname it))) \<and>
   (character d = Some c \<and> itemData form newId date = Inr it \<and>
    validateItemData d it = Inr (True, d) \<and>
    array_get (characters d) (parseInt_index (characterIndex d)) = Some c \<longrightarrow>
      array_get (characters (removeItem J (addItemToBag J d it) (int (length (bagArray c))) True))
          (parseInt_index (characterIndex d))
        = Some (c\<lparr>bag := Some (bagArray c)\<rparr>) \<and>
      length (characters (removeItem J (addItemToBag J d it) (int (length (bagArray c))) True))
        = length (characters d))"
proof (intro conjI impI)
  assume a: "character d = Some c \<and> itemData form newId date = Inr it \<and>
    validateItemData d it = Inr (True, d)"
  let ?c1 = "c\<lparr>bag := Some (bagArray c @ [it])\<rparr>"
  let ?d1 = "addItemToBag J d it"
  let ?n = "int (length (bagArray c))"
  from a show "handleAddItem J d form newId date = Inr ?d1"
    by (simp add: handleAddItem_accept)
  from a have c1: "character ?d1 = Some ?c1"
    by (simp add: addItemToBag_fields)
  have b1: "bag ?c1 = Some (bagArray c @ [it])" by simp
  have i1: "0 \<le> ?n" "?n < int (length (bagArray c @ [it]))" by simp_all
  from c1 show "\<exists>c1. character ?d1 = Some c1 \<and> bagArray c1 = bagArray c @ [it] \<and>
            array_get (bagArray c1) (Some ?n) = Some it"
    by (simp add: bagArray_def array_get_def)
  have r: "character (removeItem J ?d1 ?n True) = Some (c\<lparr>bag := Some (bagArray c)\<rparr>)"
    using removeItem_fields(1) [OF c1 b1 i1, of J] by (simp add: splice1_last)
  then show "\<exists>c2. character (removeItem J ?d1 ?n True) = Some c2 \<and>
            bagArray c2 = bagArray c \<and> length (bagArray c2) = length (bagArray c) \<and>
            c2 = c\<lparr>bag := Some (bagArray c)\<rparr>"
    by (simp add: bagArray_def)
  show "message (removeItem J ?d1 ?n True) = Some (ItemRemoved (iname it))"
    using removeItem_fields(3) [OF c1 b1 i1, of J] by simp
next
  assume a: "character d = Some c \<and> itemData form newId date = Inr it \<and>
    validateItemData d it = Inr (True, d) \<and>
    array_get (characters d) (parseInt_index (characterIndex d)) = Some c"
  let ?c1 = "c\<lparr>bag := Some (bagArray c @ [it])\<rparr>"
  let ?d1 = "addItemToBag J d it"
  let ?n = "int (length (bagArray c))"
  let ?ix = "parseInt_index (characterIndex d)"
  from a have c1: "character ?d1 = Some ?c1"
    and cs1: "characters ?d1 = array_set (characters d) ?ix ?c1"
    and ix1: "characterIndex ?d1 = characterIndex d"
    by (simp_all add: addItemToBag_fields)
  have b1: "bag ?c1 = Some (bagArray c @ [it])" by simp
  have i1: "0 \<le> ?n" "?n < int (length (bagArray c @ [it]))" by simp_all
  from a have g1: "array_get (characters ?d1) ?ix = Some ?c1"
    unfolding cs1 by (simp add: array_get_set)
  have cs2: "characters (removeItem J ?d1 ?n True)
      = array_set (characters ?d1) ?ix (c\<lparr>bag := Some (bagArray c)\<rparr>)"
    using removeItem_fields(2) [OF c1 b1 i1, of J] by (simp add: splice1_last ix1)
  show "array_get (characters (removeItem J ?d1 ?n True)) ?ix
        = Some (c\<lparr>bag := Some (bagArray c)\<rparr>)"
    unfolding cs2 using g1 by (rule array_get_set)
  show "length (characters (removeItem J ?d1 ?n True)) = length (characters d)"
    unfolding cs2 by (simp add: length_array_set cs1)
qed


theorem add_then_remove_restores_bag_witness:
  "character ember_detail = Some ember \<and>
   itemData rune_form ''1735689600000k3j9x2m1q'' ''2025-01-01T00:00:00.000Z'' = Inr rune \<and>
   validateItemData ember_detail rune = Inr (True, ember_detail) \<and>
   array_get (characters ember_detail) (parseInt_index (characterIndex ember_detail)) = Some ember \<and>
   handleAddItem table_json ember_detail rune_form ''1735689600000k3j9x2m1q''
       ''2025-01-01T00:00:00.000Z'' = Inr (addItemToBag table_json ember_detail rune) \<and>
   (\<exists>c1. character (addItemToBag table_json ember_detail rune) = Some c1 \<and>
         bagArray c1 = [rune]) \<and>
   character (removeItem table_json (addItemToBag table_json ember_detail rune) 0 True)
     = Some ember \<and>
   array_get (characters (removeItem table_json (addItemToBag table_json ember_detail rune) 0 True))
       (parseInt_index (characterIndex ember_detail)) = Some ember"
proof -
  note T = add_then_remove_restores_bag
    [of ember_detail ember rune_form "''1735689600000k3j9x2m1q''" "''2025-01-01T00:00:00.000Z''"
       rune table_json]
  have c: "character ember_detail = Some ember"
    by (simp add: ember_detail_def)
  have i: "itemData rune_form ''1735689600000k3j9x2m1q'' ''2025-01-01T00:00:00.000Z'' = Inr rune"
    by (simp add: itemData_def rune_form_def rune_def trim_def isWhiteSpace_def)
  have v: "validateItemData ember_detail rune = Inr (True, ember_detail)"
    by (simp add: validateItemData_def rune_def c) (simp add: ember_def)
  have p: "parseInt ''0'' = Some 0"
    by (simp add: parseInt_def isWhiteSpace_def digit_of_def digits_value_def)
  have g: "array_get (characters ember_detail) (parseInt_index (characterIndex ember_detail))
      = Some ember"
    by (simp add: ember_detail_def parseInt_index_def p array_get_def)
  have b: "bagArray ember = []" "ember\<lparr>bag := Some []\<rparr> = ember"
    by (simp_all add: bagArray_def ember_def)
  from T c i v g
  have "handleAddItem table_json ember_detail rune_form ''1735689600000k3j9x2m1q''
       ''2025-01-01T00:00:00.000Z'' = Inr (addItemToBag table_json ember_detail rune) \<and>
     (\<exists>c1. character (addItemToBag table_json ember_detail rune) = Some c1 \<and>
         bagArray c1 = bagArray ember @ [rune]) \<and>
     (\<exists>c2. character (removeItem table_json (addItemToBag table_json ember_detail rune)
               (int (length (bagArray ember))) True) = Some c2 \<and>
           c2 = ember\<lparr>bag := Some (bagArray ember)\<rparr>) \<and>
     array_get (characters (removeItem table_json (addItemToBag table_json ember_detail rune)
          (int (length (bagArray ember))) True))
       (parseInt_index (characterIndex ember_detail)) = Some (ember\<lparr>bag := Some (bagArray ember)\<rparr>)"
    by blast
  then have "handleAddItem table_json ember_detail rune_form ''1735689600000k3j9x2m1q''
       ''2025-01-01T00:00:00.000Z'' = Inr (addItemToBag table_json ember_detail rune) \<and>
     (\<exists>c1. character (addItemToBag table_json ember_detail rune) = Some c1 \<and>
         bagArray c1 = [rune]) \<and>
     character (removeItem table_json (addItemToBag table_json ember_detail rune) 0 True)
       = Some ember \<and>
     array_get (characters (removeItem table_json (addItemToBag table_json ember_detail rune) 0 True))
       (parseInt_index (characterIndex ember_detail)) = Some ember"
    unfolding b by simp
  with c i v g show ?thesis by blast
qed

section \<open>The invariant of the bags\<close>

lemma splice1_Cons_0: "splice1 0 (x # xs) = xs"
  by (simp add: splice1_def)

lemma splice1_Cons_Suc: "splice1 (Suc i) (x # xs) = x # splice1 i xs"
  by (simp add: splice1_def)

lemma set_splice1: "set (splice1 i xs) \<subseteq> set xs"
  using set_take_subset [of i xs] set_drop_subset [of "Suc i" xs]
  by (auto simp: splice1_def)

lemma distinct_splice1: "distinct xs \<Longrightarrow> distinct (splice1 i xs)"
proof (induction xs arbitrary: i)
  case Nil
  then show ?case by (simp add: splice1_def)
next
  case (Cons x xs)
  show ?case
  proof (cases i)
    case 0
    with Cons.prems show ?thesis by (simp add: splice1_Cons_0)
  next
    case (Suc j)
    with Cons set_splice1 [of j xs] show ?thesis
      by (auto simp: splice1_Cons_Suc)
  qed
qed

lemma map_splice1: "map f (splice1 i xs) = splice1 i (map f xs)"
  by (simp add: splice1_def take_map drop_map)

lemma bag_names_unique_push:
  assumes "bag_names_unique c"
    "toLowerCase (iname it) \<notin> (\<lambda>item. toLowerCase (iname item)) ` set (bagArray c)"
  shows "bag_names_unique (c\<lparr>bag := Some (bagArray c @ [it])\<rparr>)"
  using assms by (simp add: bag_names_unique_def bagArray_def)

lemma bag_names_unique_splice:
  assumes "bag_names_unique c" "bag c = Some b"
  shows "bag_names_unique (c\<lparr>bag := Some (splice1 i b)\<rparr>)"
  using assms distinct_splice1 [of "map (\<lambda>item. toLowerCase (iname item)) b" i]
  by (simp add: bag_names_unique_def bagArray_def map_splice1)

lemma list_all_array_set:
  "list_all P xs \<Longrightarrow> P v \<Longrightarrow> list_all P (array_set xs n v)"
  using set_array_set [of xs n v] by (auto simp: list_all_iff)

lemma bags_unique_message:
  "bags_unique (showMessage m d) = bags_unique d"
  "bags_unique (console_error l d) = bags_unique d"
  "bags_unique (detail_saveCharacters J d) = bags_unique d"
  by (simp_all add: bags_unique_def showMessage_def console_error_def detail_save_fields)

lemma addItemToBag_bags_unique:
  assumes "bags_unique d" "validateItemData d it = Inr (True, d)"
  shows "bags_unique (addItemToBag J d it)"
proof (cases "character d")
  case None
  then show ?thesis
    using assms(1) by (simp add: addItemToBag_def bags_unique_message)
next
  case (Some c)
  from assms(1) Some have u: "bag_names_unique c" and all: "list_all bag_names_unique (characters d)"
    by (simp_all add: bags_unique_def)
  have "bag_names_unique (c\<lparr>bag := Some (bagArray c @ [it])\<rparr>)"
    using u validateItemData_fresh [OF assms(2) Some] by (rule bag_names_unique_push)
  with all Some show ?thesis
    by (simp add: bags_unique_def addItemToBag_fields list_all_array_set)
qed

lemma handleAddItem_bags_unique:
  assumes "bags_unique d" "handleAddItem J d form newId date = Inr d'"
  shows "bags_unique d'"
proof -
  from assms(2) obtain it ok d1 where it: "itemData form newId date = Inr it"
    and v: "validateItemData d it = Inr (ok, d1)"
    and r: "d' = (if \<not> ok then d1 else addItemToBag J d1 it)"
    by (auto simp: handleAddItem_def split: sum.splits prod.splits if_splits)
  show ?thesis
  proof (cases ok)
    case True
    with v have "d1 = d" by (simp add: validateItemData_accepts)
    with True v r assms(1) show ?thesis
      by (simp add: addItemToBag_bags_unique)
  next
    case False
    with v have "validateItemData d it = Inr (False, d1)" by simp
    from validateItemData_rejects [OF this] obtain m where "d1 = showMessage m d"
      by blast
    with False r assms(1) show ?thesis
      by (simp add: bags_unique_message)
  qed
qed

lemma removeItem_bags_unique:
  assumes "bags_unique d"
  shows "bags_unique (removeItem J d index confirmed)"
proof -
  have e: "bags_unique (showMessage ErrorRemovingItem (console_error ErrorRemovingItemLog d))"
    using assms by (simp add: bags_unique_message)
  show ?thesis
  proof (cases "character d")
    case None
    with e show ?thesis by (simp add: removeItem_def)
  next
    case (Some c)
    show ?thesis
    proof (cases "bag c")
      case None
      with Some e show ?thesis by (simp add: removeItem_def)
    next
      case b: (Some b)
      show ?thesis
      proof (cases "confirmed \<and> 0 \<le> index \<and> index < int (length b)")
        case False
        with Some b e assms show ?thesis
          by (auto simp: removeItem_def array_get_def)
      next
        case True
        from assms Some have u: "bag_names_unique c"
          and all: "list_all bag_names_unique (characters d)"
          by (simp_all add: bags_unique_def)
        have "bag_names_unique (c\<lparr>bag := Some (splice1 (nat index) b)\<rparr>)"
          using u b by (rule bag_names_unique_splice)
        with True all show ?thesis
          using removeItem_fields(1,2) [OF Some b, of index J]
          by (simp add: bags_unique_def list_all_array_set)
      qed
    qed
  qed
qed


lemma CharacterDetailManager_bags_unique:
  assumes "fst (loadCharacters J d) = Characters cs" "list_all bag_names_unique cs"
  shows "\<exists>d3. CharacterDetailManager J d = Inr d3 \<and> bags_unique d3"
proof -
  let ?d0 = "d\<lparr>characters := [], characterIndex := None, character := None\<rparr>"
  have "fst (loadCharacters J ?d0) = fst (loadCharacters J d)"
    by (rule load_depends_on_slot) simp
  with assms(1) have l: "fst (loadCharacters J ?d0) = Characters cs" by simp
  show ?thesis
  proof (cases "sessionStorage d")
    case None
    then show ?thesis
      by (simp add: CharacterDetailManager_def initializeDetail_no_selection bags_unique_def)
  next
    case (Some s)
    then have s0: "sessionStorage ?d0 = Some s" by simp
    have el: "bag_names_unique x" if "array_get cs (parseInt s) = Some x" for x
      using that assms(2)
      by (auto simp: array_get_def list_all_iff split: option.splits if_splits)
    show ?thesis
    proof (cases "array_get cs (parseInt s)")
      case None
      with assms(2) show ?thesis
        unfolding CharacterDetailManager_def initializeDetail_characters [OF s0 l]
        by (simp add: bags_unique_def)
    next
      case (Some x)
      with assms(2) el [OF Some] show ?thesis
        unfolding CharacterDetailManager_def initializeDetail_characters [OF s0 l]
        by (simp add: bags_unique_def)
    qed
  qed
qed

lemma characterData_empty_bag:
  "characterData form now date = Inr data \<Longrightarrow> bag_names_unique data"
  "characterData2 form now date = Inr data \<Longrightarrow> bag_names_unique data"
  by (auto simp: characterData_def characterData2_def bag_names_unique_def bagArray_def Let_def
      split: option.splits)

lemma handleFormSubmit_bags:
  fixes p :: "'a page_scheme"
  assumes "list_all bag_names_unique (characters p)"
  shows "handleFormSubmit J p form now date = Inr p' \<Longrightarrow> list_all bag_names_unique (characters p')"
    and "handleFormSubmit2 J p form now date = Inr p' \<Longrightarrow> list_all bag_names_unique (characters p')"
proof -
  assume h: "handleFormSubmit J p form now date = Inr p'"
  then obtain data where d: "characterData form now date = Inr data"
    by (auto simp: handleFormSubmit_def split: sum.splits)
  show "list_all bag_names_unique (characters p')"
  proof (cases "fst (validateCharacterData 10 p data)")
    case True
    with h d have "p' = addCharacter J p data"
      by (simp add: handleFormSubmit_accept)
    with assms characterData_empty_bag(1) [OF d] show ?thesis
      by (simp add: addCharacter_characters)
  next
    case False
    with h d have "p' = snd (validateCharacterData 10 p data)"
      by (simp add: handleFormSubmit_reject)
    with assms show ?thesis by (simp add: validate_keeps)
  qed
next
  assume h: "handleFormSubmit2 J p form now date = Inr p'"
  then obtain data where d: "characterData2 form now date = Inr data"
    by (auto simp: handleFormSubmit2_def split: sum.splits)
  show "list_all bag_names_unique (characters p')"
  proof (cases "fst (validateCharacterData 5 p data)")
    case True
    with h d have "p' = addCharacter J p data"
      by (simp add: handleFormSubmit2_accept)
    with assms characterData_empty_bag(2) [OF d] show ?thesis
      by (simp add: addCharacter_characters)
  next
    case False
    with h d have "p' = snd (validateCharacterData 5 p data)"
      by (simp add: handleFormSubmit2_reject)
    with assms show ?thesis by (simp add: validate_keeps)
  qed
qed

lemma gallery_removals_bags:
  fixes p :: "'a page_scheme"
  assumes "list_all bag_names_unique (characters p)"
  shows "list_all bag_names_unique (characters (deleteCharacter J p i confirmed))"
    and "list_all bag_names_unique (characters (clearAllCharacters J p confirmed))"
proof -
  show "list_all bag_names_unique (characters (deleteCharacter J p i confirmed))"
  proof (cases confirmed)
    case True
    then have "characters (deleteCharacter J p i confirmed) = splice1 i (characters p)"
      by (simp add: deleteCharacter_characters)
    with assms set_splice1 [of i "characters p"] show ?thesis
      by (auto simp: list_all_iff)
  next
    case False
    with assms show ?thesis by (simp add: deleteCharacter_def)
  qed
  show "list_all bag_names_unique (characters (clearAllCharacters J p confirmed))"
    using assms
    by (simp add: clearAllCharacters_def showMessage_def saveCharacters_keeps)
qed

lemma handleAddItem_duplicate:
  assumes "character d = Some c" "itemData form newId date = Inr it"
    "\<exists>x \<in> set (bagArray c). toLowerCase (iname x) = toLowerCase (iname it)"
  shows "\<exists>m \<in> {SelectItemType, ItemNameTooShort, ItemNameExists}.
           handleAddItem J d form newId date = Inr (showMessage m d)"
proof -
  from validateItemData_duplicate [OF assms(1,3)]
  obtain m where "m \<in> {SelectItemType, ItemNameTooShort, ItemNameExists}"
    and "validateItemData d it = Inr (False, showMessage m d)"
    by blast
  with assms(2) show ?thesis
    by (auto simp: handleAddItem_def)
qed

text \<open>
  C8.  No two items of one bag have the same name, without regard to case, and every
  operation keeps it so: on the detail page \<open>handleAddItem\<close>, \<open>removeItem\<close> and the
  constructor (for a stored array of Characters that has the property); on the gallery the two
  \<open>handleFormSubmit\<close>, the delete button and \<open>clearAllCharacters\<close>.  An item whose name
  is, without regard to case, the name of an item of the bag is rejected with a
  validation message; the Character with its bag, the array and the store are as they
  were.
\<close>

theorem bag_names_stay_unique:
  fixes p :: "'a page_scheme"
  shows
  "(bags_unique d \<and> handleAddItem J d form newId date = Inr d' \<longrightarrow> bags_unique d') \<and>
   (bags_unique d \<longrightarrow> bags_unique (removeItem J d index confirmed)) \<and>
   (fst (loadCharacters J d) = Characters cs \<and> list_all bag_names_unique cs \<longrightarrow>
      (\<exists>d3. CharacterDetailManager J d = Inr d3 \<and> bags_unique d3)) \<and>
   (character d = Some c \<and> itemData form newId date = Inr it \<and>
    (\<exists>x \<in> set (bagArray c). toLowerCase (iname x) = toLowerCase (iname it)) \<longrightarrow>
      (\<exists>d2. handleAddItem J d form newId date = Inr d2 \<and>
            message d2 \<in> Some ` {SelectItemType, ItemNameTooShort, ItemNameExists} \<and>
            character d2 = Some c \<and> characters d2 = characters d \<and>
            localStorage d2 = localStorage d)) \<and>
   (list_all bag_names_unique (characters p) \<and> handleFormSubmit J p cform now date = Inr p'
      \<longrightarrow> list_all bag_names_unique (characters p')) \<and>
   (list_all bag_names_unique (characters p) \<and> handleFormSubmit2 J p cform now date = Inr p'
      \<longrightarrow> list_all bag_names_unique (characters p')) \<and>
   (list_all bag_names_unique (characters p)
      \<longrightarrow> list_all bag_names_unique (characters (deleteCharacter J p i confirmed)) \<and>
          list_all bag_names_unique (characters (clearAllCharacters J p confirmed)))"
proof (intro conjI impI)
  show "bags_unique d'" if "bags_unique d \<and> handleAddItem J d form newId date = Inr d'"
    using that handleAddItem_bags_unique by blast
  show "bags_unique (removeItem J d index confirmed)" if "bags_unique d"
    using that by (rule removeItem_bags_unique)
  show "\<exists>d3. CharacterDetailManager J d = Inr d3 \<and> bags_unique d3"
    if "fst (loadCharacters J d) = Characters cs \<and> list_all bag_names_unique cs"
    using that CharacterDetailManager_bags_unique by blast
  show "\<exists>d2. handleAddItem J d form newId date = Inr d2 \<and>
            message d2 \<in> Some ` {SelectItemType, ItemNameTooShort, ItemNameExists} \<and>
            character d2 = Some c \<and> characters d2 = characters d \<and>
            localStorage d2 = localStorage d"
    if a: "character d = Some c \<and> itemData form newId date = Inr it \<and>
      (\<exists>x \<in> set (bagArray c). toLowerCase (iname x) = toLowerCase (iname it))"
  proof -
    from a handleAddItem_duplicate [of d c form newId date it J]
    obtain m where m: "m \<in> {SelectItemType, ItemNameTooShort, ItemNameExists}"
      and h: "handleAddItem J d form newId date = Inr (showMessage m d)"
      by blast
    from a m have "message (showMessage m d) \<in> Some ` {SelectItemType, ItemNameTooShort, ItemNameExists}
        \<and> character (showMessage m d) = Some c \<and> characters (showMessage m d) = characters d
        \<and> localStorage (showMessage m d) = localStorage d"
      by (simp add: showMessage_def)
    with h show ?thesis by blast
  qed
  show "list_all bag_names_unique (characters p')"
    if "list_all bag_names_unique (characters p) \<and> handleFormSubmit J p cform now date = Inr p'"
    using that handleFormSubmit_bags(1) by blast
  show "list_all bag_names_unique (characters p')"
    if "list_all bag_names_unique (characters p) \<and> handleFormSubmit2 J p cform now date = Inr p'"
    using that handleFormSubmit_bags(2) by blast
  show "list_all bag_names_unique (characters (deleteCharacter J p i confirmed))"
    if "list_all bag_names_unique (characters p)"
    using that by (rule gallery_removals_bags)
  show "list_all bag_names_unique (characters (clearAllCharacters J p confirmed))"
    if "list_all bag_names_unique (characters p)"
    using that by (rule gallery_removals_bags)
qed


theorem bag_names_stay_unique_witness:
  "bags_unique ember_detail \<and>
   handleAddItem table_json ember_detail rune_form ''1735689600000k3j9x2m1q''
       ''2025-01-01T00:00:00.000Z'' = Inr (addItemToBag table_json ember_detail rune) \<and>
   bags_unique (addItemToBag table_json ember_detail rune) \<and>
   bags_unique (removeItem table_json (addItemToBag table_json ember_detail rune) 0 True) \<and>
   fst (loadCharacters table_json ember_detail) = Characters [ember] \<and>
   list_all bag_names_unique [ember] \<and>
   (\<exists>d3. CharacterDetailManager table_json ember_detail = Inr d3 \<and> bags_unique d3) \<and>
   character (addItemToBag table_json ember_detail rune) = Some (ember\<lparr>bag := Some [rune]\<rparr>) \<and>
   itemData (rune_form\<lparr>g_name := Some ''rune of power''\<rparr>) ''1735689600001a'' ''2025-01-01T00:00:01.000Z''
     = Inr (rune\<lparr>iid := ''1735689600001a'', iname := ''rune of power'',
                 addedAt := ''2025-01-01T00:00:01.000Z''\<rparr>) \<and>
   toLowerCase (iname rune) = toLowerCase ''rune of power'' \<and>
   (\<exists>d2. handleAddItem table_json (addItemToBag table_json ember_detail rune)
           (rune_form\<lparr>g_name := Some ''rune of power''\<rparr>) ''1735689600001a''
           ''2025-01-01T00:00:01.000Z'' = Inr d2 \<and>
         character d2 = Some (ember\<lparr>bag := Some [rune]\<rparr>)) \<and>
   list_all bag_names_unique (characters empty_page) \<and>
   handleFormSubmit table_json empty_page ember_form 1 ''2025-01-01T00:00:00.000Z''
     = Inr (addCharacter table_json empty_page ember) \<and>
   list_all bag_names_unique (characters (addCharacter table_json empty_page ember)) \<and>
   handleFormSubmit2 table_json empty_page ember_form 1 ''2025-01-01T00:00:00.000Z''
     = Inr (addCharacter table_json empty_page (ember\<lparr>imageUrl := ''assets/images/dragon1.png''\<rparr>)) \<and>
   list_all bag_names_unique (characters
     (addCharacter table_json empty_page (ember\<lparr>imageUrl := ''assets/images/dragon1.png''\<rparr>))) \<and>
   list_all bag_names_unique (characters (deleteCharacter table_json empty_page 0 True)) \<and>
   list_all bag_names_unique (characters (clearAllCharacters table_json empty_page True))"
proof -
  let ?id = "''1735689600000k3j9x2m1q''" and ?date = "''2025-01-01T00:00:00.000Z''"
  let ?id2 = "''1735689600001a''" and ?date2 = "''2025-01-01T00:00:01.000Z''"
  let ?d1 = "addItemToBag table_json ember_detail rune"
  let ?f2 = "rune_form\<lparr>g_name := Some ''rune of power''\<rparr>"
  let ?it2 = "rune\<lparr>iid := ?id2, iname := ''rune of power'', addedAt := ?date2\<rparr>"
  let ?c1 = "ember\<lparr>bag := Some [rune]\<rparr>"
  let ?e2 = "ember\<lparr>imageUrl := ''assets/images/dragon1.png''\<rparr>"
  note T = bag_names_stay_unique
  have c: "character ember_detail = Some ember"
    by (simp add: ember_detail_def)
  have be: "bagArray ember = []"
    by (simp add: bagArray_def ember_def)
  have ue: "bag_names_unique ember"
    by (simp add: bag_names_unique_def be)
  have u0: "bags_unique ember_detail"
    using ue by (simp add: bags_unique_def ember_detail_def)
  have i: "itemData rune_form ?id ?date = Inr rune"
    by (simp add: itemData_def rune_form_def rune_def trim_def isWhiteSpace_def)
  have v: "validateItemData ember_detail rune = Inr (True, ember_detail)"
    by (simp add: validateItemData_def rune_def c) (simp add: ember_def)
  have h1: "handleAddItem table_json ember_detail rune_form ?id ?date = Inr ?d1"
    using i v by (rule handleAddItem_accept)
  have c1: "character ?d1 = Some ?c1"
    using addItemToBag_fields(1) [OF c, of table_json rune] by (simp add: be)
  have l: "fst (loadCharacters table_json ember_detail) = Characters [ember]"
    by (simp add: loadCharacters_def ember_detail_def table_json_def)
  have l': "list_all bag_names_unique [ember]"
    using ue by simp
  have i2: "itemData ?f2 ?id2 ?date2 = Inr ?it2"
    by (simp add: itemData_def rune_form_def rune_def trim_def isWhiteSpace_def)
  have low: "toLowerCase (iname rune) = toLowerCase ''rune of power''"
    by (simp add: rune_def toLowerCase_def toLowerCase_unit_def char_of_def bit_Suc_0_iff)
  have dup: "\<exists>x \<in> set (bagArray ?c1). toLowerCase (iname x) = toLowerCase (iname ?it2)"
    using low by (simp add: bagArray_def)
  have g0: "list_all bag_names_unique (characters empty_page)"
    by (simp add: empty_page_def)
  have s1: "handleFormSubmit table_json empty_page ember_form 1 ?date
      = Inr (addCharacter table_json empty_page ember)"
    by (rule handleFormSubmit_accept)
       (simp_all add: characterData_def ember_form_def ember_def trim_def isWhiteSpace_def
         validateCharacterData_def empty_page_def)
  have s2: "handleFormSubmit2 table_json empty_page ember_form 1 ?date
      = Inr (addCharacter table_json empty_page ?e2)"
    by (rule handleFormSubmit2_accept)
       (simp_all add: characterData2_def ember_form_def ember_def trim_def isWhiteSpace_def
         validateCharacterData_def empty_page_def)
  from T [where d = ember_detail and J = table_json and form = rune_form and newId = ?id
        and date = ?date and d' = ?d1] u0 h1
  have r1: "bags_unique ?d1" by blast
  from T [where d = ?d1 and J = table_json and index = 0 and confirmed = True] r1
  have r2: "bags_unique (removeItem table_json ?d1 0 True)" by blast
  from T [where d = ember_detail and J = table_json and cs = "[ember]"] l l'
  have r3: "\<exists>d3. CharacterDetailManager table_json ember_detail = Inr d3 \<and> bags_unique d3"
    by blast
  from T [where d = ?d1 and J = table_json and form = ?f2 and newId = ?id2 and date = ?date2
        and c = ?c1 and it = ?it2] c1 i2 dup
  have r4: "\<exists>d2. handleAddItem table_json ?d1 ?f2 ?id2 ?date2 = Inr d2 \<and> character d2 = Some ?c1"
    by blast
  from T [where J = table_json and p = empty_page and cform = ember_form and now = 1
        and date = ?date and p' = "addCharacter table_json empty_page ember"] g0 s1
  have r5: "list_all bag_names_unique (characters (addCharacter table_json empty_page ember))"
    by blast
  from T [where J = table_json and p = empty_page and cform = ember_form and now = 1
        and date = ?date and p' = "addCharacter table_json empty_page ?e2"] g0 s2
  have r6: "list_all bag_names_unique (characters (addCharacter table_json empty_page ?e2))"
    by blast
  from T [where J = table_json and p = empty_page and confirmed = True and i = 0] g0
  have r7: "list_all bag_names_unique (characters (deleteCharacter table_json empty_page 0 True)) \<and>
    list_all bag_names_unique (characters (clearAllCharacters table_json empty_page True))"
    by blast
  from u0 h1 r1 r2 l l' r3 c1 i2 low r4 g0 s1 r5 s2 r6 r7 show ?thesis
    by blast
qed



end
